theory Spec2Isabelle
  imports Complex_Main
begin

section \<open>JavaScript numbers\<close>

text \<open>
  A JavaScript number is an IEEE 754 double: not-a-number, an infinity, or a finite
  value, kept here as the rational it denotes. The two zeros are one value (the code
  modelled below never divides, so the sign of a zero is never observed). Arithmetic
  computes the exact rational result and rounds it to the nearest double, ties to the
  even significand, as the standard prescribes.
\<close>

datatype number = NaN | NegInfinity | Num rat | PosInfinity

text \<open>The power of two \<open>2\<^sup>k\<close> for an integer \<open>k\<close>.\<close>

definition pow2 :: "int \<Rightarrow> rat" where
  "pow2 k = (if 0 \<le> k then 2 ^ nat k else 1 / 2 ^ nat (- k))"

text \<open>
  The significand and exponent of a positive rational: \<open>a = s * 2\<^sup>e\<close> with \<open>1 \<le> s < 2\<close>,
  or \<open>e = -1022\<close> and \<open>s < 1\<close> in the subnormal range.
\<close>

function scale_down :: "rat \<Rightarrow> int \<Rightarrow> rat \<times> int" where
  "scale_down a e = (if 2 \<le> a then scale_down (a / 2) (e + 1) else (a, e))"
  by pat_completeness auto
termination
proof (relation "measure (\<lambda>(a, e). nat \<lfloor>a\<rfloor>)")
  show "wf (measure (\<lambda>(a, e). nat \<lfloor>a\<rfloor>))" by simp
next
  fix a :: rat and e :: int
  assume "2 \<le> a"
  then have "a / 2 \<le> a - 1" by simp
  then have "\<lfloor>a / 2\<rfloor> \<le> \<lfloor>a - 1\<rfloor>" by (rule floor_mono)
  moreover have "\<lfloor>a - 1\<rfloor> = \<lfloor>a\<rfloor> - 1" by simp
  moreover from \<open>2 \<le> a\<close> have "2 \<le> \<lfloor>a\<rfloor>" by (simp add: le_floor_iff)
  ultimately show "((a / 2, e + 1), (a, e)) \<in> measure (\<lambda>(a, e). nat \<lfloor>a\<rfloor>)"
    by simp
qed

function scale_up :: "rat \<Rightarrow> int \<Rightarrow> rat \<times> int" where
  "scale_up a e = (if a < 1 \<and> - 1022 < e then scale_up (a * 2) (e - 1) else (a, e))"
  by pat_completeness auto
termination
  by (relation "measure (\<lambda>(a, e). nat (e + 1022))") auto

declare scale_down.simps [simp del]
declare scale_up.simps [simp del]

definition normalise :: "rat \<Rightarrow> rat \<times> int" where
  "normalise a = (if 1 \<le> a then scale_down a 0 else scale_up a 0)"

text \<open>The nearest integer, a tie going to the even one.\<close>

definition round_half_even :: "rat \<Rightarrow> int" where
  "round_half_even m =
     (let f = \<lfloor>m\<rfloor>; d = m - of_int f
      in if d < 1 / 2 then f else if 1 / 2 < d then f + 1 else if even f then f else f + 1)"

text \<open>
  Rounding to a double: 53 significant bits, the smallest exponent \<open>-1022\<close>, and
  infinity from \<open>2\<^sup>1\<^sup>0\<^sup>2\<^sup>4\<close> on.
\<close>

definition round_double :: "rat \<Rightarrow> number" where
  "round_double r =
     (if r = 0 then Num 0
      else
        let (s, e) = normalise \<bar>r\<bar>;
            n = round_half_even (s * 2 ^ 52);
            v = of_int n * pow2 (e - 52)
        in if 2 ^ 1024 \<le> v then (if 0 < r then PosInfinity else NegInfinity)
           else Num (if 0 < r then v else - v))"

text \<open>A numeric literal of the source denotes the double nearest to it.\<close>

definition lit :: "rat \<Rightarrow> number" where
  "lit r = round_double r"

text \<open>Unary minus, \<open>+\<close>, \<open>-\<close> and \<open>*\<close>.\<close>

definition fneg :: "number \<Rightarrow> number" where
  "fneg x =
     (case x of
        NaN \<Rightarrow> NaN
      | NegInfinity \<Rightarrow> PosInfinity
      | PosInfinity \<Rightarrow> NegInfinity
      | Num a \<Rightarrow> Num (- a))"

definition fadd :: "number \<Rightarrow> number \<Rightarrow> number" where
  "fadd x y =
     (case (x, y) of
        (NaN, _) \<Rightarrow> NaN
      | (_, NaN) \<Rightarrow> NaN
      | (PosInfinity, NegInfinity) \<Rightarrow> NaN
      | (NegInfinity, PosInfinity) \<Rightarrow> NaN
      | (PosInfinity, _) \<Rightarrow> PosInfinity
      | (_, PosInfinity) \<Rightarrow> PosInfinity
      | (NegInfinity, _) \<Rightarrow> NegInfinity
      | (_, NegInfinity) \<Rightarrow> NegInfinity
      | (Num a, Num b) \<Rightarrow> round_double (a + b))"

definition fsub :: "number \<Rightarrow> number \<Rightarrow> number" where
  "fsub x y = fadd x (fneg y)"

definition sign_of :: "number \<Rightarrow> int" where
  "sign_of x =
     (case x of
        NaN \<Rightarrow> 0
      | NegInfinity \<Rightarrow> - 1
      | PosInfinity \<Rightarrow> 1
      | Num a \<Rightarrow> (if a < 0 then - 1 else if a = 0 then 0 else 1))"

definition fmul :: "number \<Rightarrow> number \<Rightarrow> number" where
  "fmul x y =
     (case (x, y) of
        (NaN, _) \<Rightarrow> NaN
      | (_, NaN) \<Rightarrow> NaN
      | (Num a, Num b) \<Rightarrow> round_double (a * b)
      | _ \<Rightarrow> (if sign_of x * sign_of y = 0 then NaN
              else if sign_of x * sign_of y < 0 then NegInfinity
              else PosInfinity))"

text \<open>The comparisons \<open><\<close>, \<open><=\<close>, \<open>>\<close> and \<open>>=\<close>: false as soon as an operand is not a number.\<close>

definition flt :: "number \<Rightarrow> number \<Rightarrow> bool" where
  "flt x y =
     (case (x, y) of
        (NaN, _) \<Rightarrow> False
      | (_, NaN) \<Rightarrow> False
      | (Num a, Num b) \<Rightarrow> a < b
      | (NegInfinity, NegInfinity) \<Rightarrow> False
      | (NegInfinity, _) \<Rightarrow> True
      | (_, PosInfinity) \<Rightarrow> (x \<noteq> PosInfinity)
      | _ \<Rightarrow> False)"

definition fle :: "number \<Rightarrow> number \<Rightarrow> bool" where
  "fle x y = (x \<noteq> NaN \<and> y \<noteq> NaN \<and> (flt x y \<or> x = y))"

definition fgt :: "number \<Rightarrow> number \<Rightarrow> bool" where
  "fgt x y = flt y x"

definition fge :: "number \<Rightarrow> number \<Rightarrow> bool" where
  "fge x y = fle y x"

text \<open>\<open>Math.max\<close> and \<open>Math.min\<close> of two arguments: not a number when one of them is.\<close>

definition Math_max :: "number \<Rightarrow> number \<Rightarrow> number" where
  "Math_max x y = (if x = NaN \<or> y = NaN then NaN else if flt x y then y else x)"

definition Math_min :: "number \<Rightarrow> number \<Rightarrow> number" where
  "Math_min x y = (if x = NaN \<or> y = NaN then NaN else if flt y x then y else x)"

text \<open>
  \<open>Math.pow(x, 2)\<close> and \<open>Math.sqrt(x)\<close>. The language leaves the accuracy of both to
  the engine; they are taken as correctly rounded, which is what \<open>x * x\<close> and the
  hardware square root give.
\<close>

definition Math_pow_2 :: "number \<Rightarrow> number" where
  "Math_pow_2 x =
     (case x of
        NaN \<Rightarrow> NaN
      | NegInfinity \<Rightarrow> PosInfinity
      | PosInfinity \<Rightarrow> PosInfinity
      | Num a \<Rightarrow> round_double (a * a))"

text \<open>
  For the square root the argument is written \<open>s * 4\<^sup>k\<close> with \<open>1 \<le> s < 4\<close>; the integer
  square root of \<open>s * 2\<^sup>1\<^sup>0\<^sup>4\<close>, found by bisection, gives the 53 bits of the root and the
  comparison with the next half decides the rounding.
\<close>

function scale4_down :: "rat \<Rightarrow> int \<Rightarrow> rat \<times> int" where
  "scale4_down a k = (if 4 \<le> a then scale4_down (a / 4) (k + 1) else (a, k))"
  by pat_completeness auto
termination
proof (relation "measure (\<lambda>(a, k). nat \<lfloor>a\<rfloor>)")
  show "wf (measure (\<lambda>(a, k). nat \<lfloor>a\<rfloor>))" by simp
next
  fix a :: rat and k :: int
  assume "4 \<le> a"
  then have "a / 4 \<le> a - 1" by simp
  then have "\<lfloor>a / 4\<rfloor> \<le> \<lfloor>a - 1\<rfloor>" by (rule floor_mono)
  moreover have "\<lfloor>a - 1\<rfloor> = \<lfloor>a\<rfloor> - 1" by simp
  moreover from \<open>4 \<le> a\<close> have "4 \<le> \<lfloor>a\<rfloor>" by (simp add: le_floor_iff)
  ultimately show "((a / 4, k + 1), (a, k)) \<in> measure (\<lambda>(a, k). nat \<lfloor>a\<rfloor>)"
    by simp
qed

function scale4_up :: "rat \<Rightarrow> int \<Rightarrow> rat \<times> int" where
  "scale4_up a k = (if a < 1 \<and> - 540 < k then scale4_up (a * 4) (k - 1) else (a, k))"
  by pat_completeness auto
termination
  by (relation "measure (\<lambda>(a, k). nat (k + 540))") auto

declare scale4_down.simps [simp del]
declare scale4_up.simps [simp del]

function isqrt_between :: "int \<Rightarrow> int \<Rightarrow> int \<Rightarrow> int" where
  "isqrt_between n lo hi =
     (if lo + 1 < hi
      then (let mid = (lo + hi) div 2
            in if mid * mid \<le> n then isqrt_between n mid hi else isqrt_between n lo mid)
      else lo)"
  by pat_completeness auto
termination
  by (relation "measure (\<lambda>(n, lo, hi). nat (hi - lo))") auto

declare isqrt_between.simps [simp del]

definition Math_sqrt :: "number \<Rightarrow> number" where
  "Math_sqrt x =
     (case x of
        NaN \<Rightarrow> NaN
      | NegInfinity \<Rightarrow> NaN
      | PosInfinity \<Rightarrow> PosInfinity
      | Num a \<Rightarrow>
          if a < 0 then NaN
          else if a = 0 then Num 0
          else
            let (s, k) = (if 1 \<le> a then scale4_down a 0 else scale4_up a 0);
                m = s * 2 ^ 104;
                r = isqrt_between \<lfloor>m\<rfloor> (2 ^ 52) (2 ^ 53);
                h = (of_int r + 1 / 2) * (of_int r + 1 / 2);
                n = (if m < h then r else if h < m then r + 1 else if even r then r else r + 1)
            in Num (of_int n * pow2 (k - 52)))"

section \<open>Data model\<close>

text \<open>
  The \<open>Annotation\<close> interface of \<open>AnnotationViewer.tsx\<close> (lines 5-14). The coordinates
  are JavaScript numbers; \<open>order\<close> is an integer (an integer column of the store);
  \<open>imageUrl\<close> is optional and nullable.
\<close>

record annotation =
  ann_id :: string
  ann_title :: string
  ann_content :: string
  ann_imageUrl :: "string option"
  ann_x :: number
  ann_y :: number
  ann_z :: number
  ann_order :: int

record vec3 =
  vx :: number
  vy :: number
  vz :: number

text \<open>The part of the \<open>Tutorial\<close> interface (part_000, lines 26-36) the player reads.\<close>

record tutorial =
  tut_id :: string
  tut_annotations :: "annotation list"

section \<open>The tutorial player (part_000, lines 38-230)\<close>

text \<open>
  The React state of \<open>SharedTutorialPage\<close> (lines 41-53). \<open>session\<close> records whether
  \<open>useSession\<close> gave a session; \<open>tutorial\<close> is \<open>None\<close> until the tutorial is loaded.
\<close>

record page =
  session :: bool
  tutorial :: "tutorial option"
  currentStep :: int
  completedSteps :: "string set"
  saving :: bool
  progressLoaded :: bool
  showWelcome :: bool
  cameraPosition :: vec3
  proximityWarning :: "string option"

text \<open>
  What a handler asks of the outside world: the POST to \<open>/api/progress\<close> (tutorial id,
  completed ids, the \<open>completed\<close> flag), the 2-second timer that clears the warning,
  and the 2-second timer that redirects to the dashboard.
\<close>

datatype effect =
  PostProgress string "string set" bool
| ClearWarningTimer
| RedirectTimer

text \<open>
  Lines 111-113: a copy of the annotations sorted by \<open>order\<close>. \<open>Array.prototype.sort\<close>
  is stable, and so is \<open>sort_key\<close>.
\<close>

definition sortedAnnotations :: "page \<Rightarrow> annotation list" where
  "sortedAnnotations s =
     (case tutorial s of
        None \<Rightarrow> []
      | Some t \<Rightarrow> sort_key ann_order (tut_annotations t))"

text \<open>Line 115: indexing out of range gives \<open>undefined\<close>, here \<open>None\<close>.\<close>

definition currentAnnotation :: "page \<Rightarrow> annotation option" where
  "currentAnnotation s =
     (let xs = sortedAnnotations s; i = currentStep s
      in if 0 \<le> i \<and> i < int (length xs) then Some (xs ! nat i) else None)"

text \<open>Lines 121-127.\<close>

definition getDistance :: "vec3 \<Rightarrow> vec3 \<Rightarrow> number" where
  "getDistance pos1 pos2 =
     Math_sqrt
       (fadd
          (fadd (Math_pow_2 (fsub (vx pos1) (vx pos2))) (Math_pow_2 (fsub (vy pos1) (vy pos2))))
          (Math_pow_2 (fsub (vz pos1) (vz pos2))))"

text \<open>Line 130.\<close>

definition PROXIMITY_THRESHOLD :: number where
  "PROXIMITY_THRESHOLD = Num 3"

text \<open>Lines 131-133.\<close>

definition isNearCurrentAnnotation :: "page \<Rightarrow> bool" where
  "isNearCurrentAnnotation s =
     (case currentAnnotation s of
        Some a \<Rightarrow>
          flt (getDistance (cameraPosition s) \<lparr>vx = ann_x a, vy = ann_y a, vz = ann_z a\<rparr>)
            PROXIMITY_THRESHOLD
      | None \<Rightarrow> False)"

text \<open>
  \<open>Array.prototype.findIndex\<close>: the index of the first element satisfying the predicate,
  \<open>-1\<close> when there is none.
\<close>

fun findIndex_from :: "('a \<Rightarrow> bool) \<Rightarrow> 'a list \<Rightarrow> int \<Rightarrow> int" where
  "findIndex_from P [] i = - 1"
| "findIndex_from P (a # as) i = (if P a then i else findIndex_from P as (i + 1))"

definition findIndex :: "('a \<Rightarrow> bool) \<Rightarrow> 'a list \<Rightarrow> int" where
  "findIndex P xs = findIndex_from P xs 0"

text \<open>Line 136.\<close>

definition nextRequiredStep :: "page \<Rightarrow> int" where
  "nextRequiredStep s =
     findIndex (\<lambda>ann. ann_id ann \<notin> completedSteps s) (sortedAnnotations s)"

text \<open>
  Lines 138-165, up to the first \<open>await\<close>: nothing without a session or a tutorial,
  otherwise the saving flag is raised and the request is sent.
\<close>

definition saveProgress :: "page \<Rightarrow> string set \<Rightarrow> page \<times> effect list" where
  "saveProgress s newCompletedSteps =
     (case tutorial s of
        None \<Rightarrow> (s, [])
      | Some t \<Rightarrow>
          if session s
          then (s\<lparr>saving := True\<rparr>,
                [PostProgress (tut_id t) newCompletedSteps
                   (card newCompletedSteps = length (sortedAnnotations s))])
          else (s, []))"

text \<open>
  Lines 153-164, after the \<open>await\<close>: when the request did not throw and the tutorial is
  complete the redirect is scheduled; the saving flag is lowered either way.
\<close>

definition saveProgress_settled :: "bool \<Rightarrow> bool \<Rightarrow> page \<Rightarrow> page \<times> effect list" where
  "saveProgress_settled fetched isComplete s =
     (s\<lparr>saving := False\<rparr>, if fetched \<and> isComplete then [RedirectTimer] else [])"

text \<open>
  The decimal digits a template literal prints for an integer number (line 179), built
  from the last digit backwards.
\<close>

definition decimal_digit :: "nat \<Rightarrow> char" where
  "decimal_digit d = ''0123456789'' ! d"

function decimal_from :: "nat \<Rightarrow> string \<Rightarrow> string" where
  "decimal_from n acc =
     (let acc' = decimal_digit (n mod 10) # acc
      in if n div 10 = 0 then acc' else decimal_from (n div 10) acc')"
  by pat_completeness auto
termination
  by (relation "measure fst") auto

declare decimal_from.simps [simp del]

definition show_number :: "int \<Rightarrow> string" where
  "show_number i =
     (if 0 \<le> i then decimal_from (nat i) [] else CHR ''-'' # decimal_from (nat (- i)) [])"

text \<open>Lines 167-201.\<close>

definition markComplete :: "page \<Rightarrow> page \<times> effect list" where
  "markComplete s =
     (case currentAnnotation s of
        None \<Rightarrow> (s, [])
      | Some a \<Rightarrow>
          if ann_id a \<in> completedSteps s
          then (s\<lparr>proximityWarning := Some ''This step is already completed!''\<rparr>,
                [ClearWarningTimer])
          else if nextRequiredStep s \<noteq> - 1 \<and> currentStep s \<noteq> nextRequiredStep s
          then (s\<lparr>proximityWarning :=
                     Some (''Complete step '' @ show_number (nextRequiredStep s + 1) @ '' first!'')\<rparr>,
                [ClearWarningTimer])
          else if \<not> isNearCurrentAnnotation s
          then (s\<lparr>proximityWarning := Some ''Move closer to the marker to complete this step!''\<rparr>,
                [ClearWarningTimer])
          else
            let newCompleted = insert (ann_id a) (completedSteps s);
                (s1, effs) = saveProgress (s\<lparr>completedSteps := newCompleted\<rparr>) newCompleted;
                s2 = s1\<lparr>proximityWarning := None\<rparr>
            in (if currentStep s < int (length (sortedAnnotations s)) - 1
                then s2\<lparr>currentStep := currentStep s + 1\<rparr>
                else s2,
                effs))"

text \<open>
  Lines 204-226, the \<open>keydown\<close> listener: nothing while the welcome popup is open;
  the arrow keys move within the list, Enter and the space key call \<open>markComplete\<close>.
\<close>

definition handleKeyDown :: "string \<Rightarrow> page \<Rightarrow> page \<times> effect list" where
  "handleKeyDown key s =
     (if showWelcome s then (s, [])
      else if key = ''ArrowRight'' \<or> key = ''ArrowDown''
      then (if currentStep s < int (length (sortedAnnotations s)) - 1
            then (s\<lparr>currentStep := currentStep s + 1\<rparr>, [])
            else (s, []))
      else if key = ''ArrowLeft'' \<or> key = ''ArrowUp''
      then (if currentStep s > 0
            then (s\<lparr>currentStep := currentStep s - 1\<rparr>, [])
            else (s, []))
      else if key = ''Enter'' \<or> key = '' ''
      then markComplete s
      else (s, []))"

text \<open>Line 451, the Previous button.\<close>

definition previousClick :: "page \<Rightarrow> page" where
  "previousClick s = s\<lparr>currentStep := max 0 (currentStep s - 1)\<rparr>"

text \<open>Line 459, the Next Step button.\<close>

definition nextClick :: "page \<Rightarrow> page" where
  "nextClick s =
     (if currentStep s < int (length (sortedAnnotations s)) - 1
      then s\<lparr>currentStep := currentStep s + 1\<rparr>
      else s)"

text \<open>Lines 228-230.\<close>

definition goToStep :: "int \<Rightarrow> page \<Rightarrow> page" where
  "goToStep index s = s\<lparr>currentStep := index\<rparr>"

text \<open>Lines 394-397, a click on a marker of the viewer.\<close>

definition onAnnotationClick :: "annotation \<Rightarrow> page \<Rightarrow> page" where
  "onAnnotationClick ann s =
     (let index = findIndex (\<lambda>a. ann_id a = ann_id ann) (sortedAnnotations s)
      in if index \<noteq> - 1 then s\<lparr>currentStep := index\<rparr> else s)"

text \<open>Line 398: the viewer reports the camera position.\<close>

definition onCameraMove :: "vec3 \<Rightarrow> page \<Rightarrow> page" where
  "onCameraMove pos s = s\<lparr>cameraPosition := pos\<rparr>"

text \<open>Line 335, the Start Tutorial button, and the timer of lines 173, 180 and 187.\<close>

definition startTutorial :: "page \<Rightarrow> page" where
  "startTutorial s = s\<lparr>showWelcome := False\<rparr>"

definition clearWarning :: "page \<Rightarrow> page" where
  "clearWarning s = s\<lparr>proximityWarning := None\<rparr>"

text \<open>
  What \<open>GET /api/progress\<close> can come to: the request throws, the response is not ok, or
  it is ok and \<open>progress.completedAnnotations\<close> is absent or a list of ids.
\<close>

datatype progress_reply =
  FetchThrew
| NotOk
| Ok "string list option"

text \<open>
  Lines 90-109: nothing without a session or a tutorial, or when progress was loaded
  already; otherwise the completed set is replaced by the ids of the reply.
\<close>

definition loadProgress :: "progress_reply \<Rightarrow> page \<Rightarrow> page" where
  "loadProgress reply s =
     (if \<not> session s \<or> tutorial s = None \<or> progressLoaded s then s
      else case reply of
             FetchThrew \<Rightarrow> s
           | NotOk \<Rightarrow> s\<lparr>progressLoaded := True\<rparr>
           | Ok None \<Rightarrow> s\<lparr>progressLoaded := True\<rparr>
           | Ok (Some ids) \<Rightarrow> s\<lparr>completedSteps := set ids, progressLoaded := True\<rparr>)"

text \<open>The two invariants of the progression session (section 3 of the specification).\<close>

definition step_valid :: "page \<Rightarrow> bool" where
  "step_valid s =
     (sortedAnnotations s \<noteq> [] \<longrightarrow>
        0 \<le> currentStep s \<and> currentStep s \<le> int (length (sortedAnnotations s)) - 1)"

definition annotation_ids :: "page \<Rightarrow> string set" where
  "annotation_ids s =
     (case tutorial s of None \<Rightarrow> {} | Some t \<Rightarrow> ann_id ` set (tut_annotations t))"

definition completed_known :: "page \<Rightarrow> bool" where
  "completed_known s = (completedSteps s \<subseteq> annotation_ids s)"

section \<open>The annotation overlay (AnnotationViewer.tsx, lines 317-402)\<close>

text \<open>
  \<open>pos.project(camera)\<close> is the renderer library's; the overlay is modelled from the
  projected vector on: its \<open>x\<close> and \<open>y\<close> are normalized device coordinates, its \<open>z\<close> the
  projected depth, each a JavaScript number that the projection may leave not a number
  or infinite. The viewport is \<open>clientWidth\<close> by \<open>clientHeight\<close>.
\<close>

text \<open>Lines 324 and 335.\<close>

definition padding :: number where
  "padding = Num 60"

definition margin :: number where
  "margin = Num 20"

text \<open>Lines 331-332.\<close>

definition screenX :: "vec3 \<Rightarrow> number \<Rightarrow> number" where
  "screenX pos width = fmul (fadd (fmul (vx pos) (Num (1 / 2))) (Num (1 / 2))) width"

definition screenY :: "vec3 \<Rightarrow> number \<Rightarrow> number" where
  "screenY pos height = fmul (fadd (fmul (fneg (vy pos)) (Num (1 / 2))) (Num (1 / 2))) height"

text \<open>Lines 334 and 336.\<close>

definition isBehind :: "vec3 \<Rightarrow> bool" where
  "isBehind pos = fgt (vz pos) (Num 1)"

definition isOffScreen :: "vec3 \<Rightarrow> number \<Rightarrow> number \<Rightarrow> bool" where
  "isOffScreen pos width height =
     (isBehind pos \<or> flt (screenX pos width) (fneg margin)
      \<or> fgt (screenX pos width) (fadd width margin)
      \<or> flt (screenY pos height) (fneg margin)
      \<or> fgt (screenY pos height) (fadd height margin))"

text \<open>Lines 360-368: the point the indicator is placed from, mirrored when behind.\<close>

definition edgeX :: "vec3 \<Rightarrow> number \<Rightarrow> number" where
  "edgeX pos width =
     (if isBehind pos
      then (let flippedX = fneg (vx pos)
            in fmul (fadd (fmul flippedX (Num (1 / 2))) (Num (1 / 2))) width)
      else screenX pos width)"

definition edgeY :: "vec3 \<Rightarrow> number \<Rightarrow> number" where
  "edgeY pos height =
     (if isBehind pos
      then (let flippedY = fneg (vy pos)
            in fmul (fadd (fmul (fneg flippedY) (Num (1 / 2))) (Num (1 / 2))) height)
      else screenY pos height)"

text \<open>Lines 370-371.\<close>

definition clampedX :: "vec3 \<Rightarrow> number \<Rightarrow> number" where
  "clampedX pos width = Math_max padding (Math_min (fsub width padding) (edgeX pos width))"

definition clampedY :: "vec3 \<Rightarrow> number \<Rightarrow> number" where
  "clampedY pos height = Math_max padding (Math_min (fsub height padding) (edgeY pos height))"

text \<open>
  An element appended to the overlay: its class list, the pixel values of
  \<open>style.left\<close> and \<open>style.top\<close>, and the number in its badge.
\<close>

record element =
  el_classes :: "string list"
  el_left :: number
  el_top :: number
  el_badge :: int

text \<open>
  \<open>DOMTokenList.add\<close> as the DOM standard defines it: an empty token throws a
  \<open>SyntaxError\<close>, a token with ASCII whitespace an \<open>InvalidCharacterError\<close>; otherwise
  the token is appended unless it is there already.
\<close>

datatype dom_error =
  SyntaxError
| InvalidCharacterError

definition ascii_whitespace :: "char \<Rightarrow> bool" where
  "ascii_whitespace c = (c \<in> set [CHR 0x09, CHR 0x0A, CHR 0x0C, CHR 0x0D, CHR '' ''])"

definition classList_add :: "string list \<Rightarrow> string \<Rightarrow> dom_error + string list" where
  "classList_add classes token =
     (if token = [] then Inl SyntaxError
      else if \<exists>c\<in>set token. ascii_whitespace c then Inl InvalidCharacterError
      else if token \<in> set classes then Inr classes
      else Inr (classes @ [token]))"

text \<open>Lines 346 and 395: \<open>ann.order || index + 1\<close>.\<close>

definition badge :: "annotation \<Rightarrow> nat \<Rightarrow> int" where
  "badge ann index = (if ann_order ann \<noteq> 0 then ann_order ann else int index + 1)"

text \<open>Lines 339-348: the marker of an annotation on screen.\<close>

definition marker ::
  "annotation \<Rightarrow> nat \<Rightarrow> string option \<Rightarrow> vec3 \<Rightarrow> number \<Rightarrow> number \<Rightarrow> element" where
  "marker ann index activeAnnotationId pos width height =
     \<lparr>el_classes =
        [''annotation-marker'']
        @ (if Some (ann_id ann) = activeAnnotationId then [''active''] else [])
        @ (case ann_imageUrl ann of
             None \<Rightarrow> []
           | Some u \<Rightarrow> if u = [] then [] else [''has-image'']),
      el_left = screenX pos width,
      el_top = screenY pos height,
      el_badge = badge ann index\<rparr>"

text \<open>
  Lines 373-392: the direction and the \<open>left\<close> and \<open>top\<close> of the indicator, by the first
  test that holds; the direction stays empty when none does.
\<close>

definition indicator_style ::
  "vec3 \<Rightarrow> number \<Rightarrow> number \<Rightarrow> string \<times> number \<times> number" where
  "indicator_style pos width height =
     (if fle (edgeX pos width) padding
      then (''left'', padding, clampedY pos height)
      else if fge (edgeX pos width) (fsub width padding)
      then (''right'', fsub width padding, clampedY pos height)
      else if fle (edgeY pos height) padding
      then (''top'', clampedX pos width, padding)
      else if fge (edgeY pos height) (fsub height padding)
      then (''bottom'', clampedX pos width, fsub height padding)
      else ([], clampedX pos width, clampedY pos height))"

text \<open>
  Lines 354-395: the indicator of an annotation off screen. The call
  \<open>classList.add(direction)\<close> of line 394 can throw, and then nothing is appended.
\<close>

definition indicator ::
  "annotation \<Rightarrow> nat \<Rightarrow> string option \<Rightarrow> vec3 \<Rightarrow> number \<Rightarrow> number
     \<Rightarrow> dom_error + element" where
  "indicator ann index activeAnnotationId pos width height =
     (let (direction, left, top) = indicator_style pos width height
      in case classList_add
                ([''offscreen-indicator'']
                 @ (if Some (ann_id ann) = activeAnnotationId then [''active''] else []))
                direction of
           Inl e \<Rightarrow> Inl e
         | Inr classes \<Rightarrow>
             Inr \<lparr>el_classes = classes, el_left = left, el_top = top,
                  el_badge = badge ann index\<rparr>)"

text \<open>Lines 326-400, the body of the \<open>forEach\<close> for one annotation.\<close>

definition place ::
  "(vec3 \<Rightarrow> vec3) \<Rightarrow> string option \<Rightarrow> number \<Rightarrow> number \<Rightarrow> annotation \<Rightarrow> nat
     \<Rightarrow> dom_error + element" where
  "place project activeAnnotationId width height ann index =
     (let pos = project \<lparr>vx = ann_x ann, vy = ann_y ann, vz = ann_z ann\<rparr>
      in if \<not> isOffScreen pos width height
         then Inr (marker ann index activeAnnotationId pos width height)
         else indicator ann index activeAnnotationId pos width height)"

text \<open>
  The \<open>forEach\<close> of lines 326-401 from \<open>index\<close> on: each element is appended to the
  container; an exception ends the loop and leaves what was appended.
\<close>

fun place_all ::
  "(vec3 \<Rightarrow> vec3) \<Rightarrow> string option \<Rightarrow> number \<Rightarrow> number \<Rightarrow> annotation list \<Rightarrow> nat
     \<Rightarrow> element list \<Rightarrow> element list \<times> dom_error option" where
  "place_all project active width height [] index container = (container, None)"
| "place_all project active width height (ann # anns) index container =
     (case place project active width height ann index of
        Inl e \<Rightarrow> (container, Some e)
      | Inr el \<Rightarrow> place_all project active width height anns (Suc index) (container @ [el]))"

text \<open>
  Lines 317-402. The camera and the renderer are one optional view: the projection and
  the size of the canvas. Without it the container is left as it is.
\<close>

record view =
  view_project :: "vec3 \<Rightarrow> vec3"
  view_width :: number
  view_height :: number

definition updateAnnotationPositions ::
  "view option \<Rightarrow> annotation list \<Rightarrow> string option \<Rightarrow> element list
     \<Rightarrow> element list \<times> dom_error option" where
  "updateAnnotationPositions v annotations activeAnnotationId container =
     (case v of
        None \<Rightarrow> (container, None)
      | Some w \<Rightarrow>
          place_all (view_project w) activeAnnotationId (view_width w) (view_height w)
            annotations 0 [])"

text \<open>
  The three branches of the loop body, under the specification's names: the marker
  branch of line 338, and within the indicator branch the mirrored path of line 360 and
  the plain path of line 365.
\<close>

datatype visibility = OnScreen | Behind | OffBounds

definition visibility :: "vec3 \<Rightarrow> number \<Rightarrow> number \<Rightarrow> visibility" where
  "visibility pos width height =
     (if \<not> isOffScreen pos width height then OnScreen
      else if isBehind pos then Behind
      else OffBounds)"

section \<open>The annotation routes (part_001)\<close>

text \<open>
  What destructuring the JSON body gives for a property: \<open>undefined\<close> when the key is
  absent, \<open>null\<close>, or a value.
\<close>

datatype 'a js =
  Undefined
| Null
| Val 'a

record body =
  b_annotationId :: "string js"
  b_title :: "string js"
  b_content :: "string js"
  b_x :: "number js"
  b_y :: "number js"
  b_z :: "number js"
  b_order :: "int js"
  b_imageUrl :: "string js"

text \<open>
  A row of the \<open>annotation\<close> table. The schema is not part of the sources: every data
  column is taken as nullable, and a \<open>null\<close> that is written is stored as \<open>None\<close>.
\<close>

record annotation_row =
  row_id :: string
  row_tutorialId :: string
  row_title :: "string option"
  row_content :: "string option"
  row_imageUrl :: "string option"
  row_x :: "number option"
  row_y :: "number option"
  row_z :: "number option"
  row_order :: "int option"
  row_updatedAt :: nat

datatype api_error =
  Unauthorized
| BadRequest string
| ServerError string

text \<open>Truthiness of a string and of a number, and the value a column receives.\<close>

definition truthy_string :: "string js \<Rightarrow> bool" where
  "truthy_string v = (case v of Val s \<Rightarrow> s \<noteq> [] | _ \<Rightarrow> False)"

definition truthy_number :: "int js \<Rightarrow> bool" where
  "truthy_number v = (case v of Val n \<Rightarrow> n \<noteq> 0 | _ \<Rightarrow> False)"

definition column_value :: "'a js \<Rightarrow> 'a option" where
  "column_value v = (case v of Val a \<Rightarrow> Some a | _ \<Rightarrow> None)"

text \<open>\<open>content || ""\<close> and \<open>imageUrl || null\<close> (lines 47-48).\<close>

definition or_empty :: "string js \<Rightarrow> string option" where
  "or_empty v = (if truthy_string v then column_value v else Some [])"

definition or_null :: "string js \<Rightarrow> string option" where
  "or_null v = (if truthy_string v then column_value v else None)"

text \<open>\<open>findMany\<close> with \<open>eq(a.tutorialId, tutorialId)\<close> (lines 36-38).\<close>

definition existingAnnotations :: "string \<Rightarrow> annotation_row list \<Rightarrow> annotation_row list" where
  "existingAnnotations tutorialId db = filter (\<lambda>a. row_tutorialId a = tutorialId) db"

text \<open>
  \<open>POST\<close> of lines 8-64. \<open>authorised\<close> tells whether \<open>getSession\<close> gave a session;
  \<open>fresh\<close> is the row the store's defaults give (its id, its
  timestamps); \<open>body = None\<close> stands for a request whose JSON does not parse, which the
  \<open>catch\<close> answers. The result is the new row and the table after the insert.
\<close>

definition POST_A ::
  "bool \<Rightarrow> annotation_row \<Rightarrow> string \<Rightarrow> body option \<Rightarrow> annotation_row list
     \<Rightarrow> api_error + annotation_row \<times> annotation_row list" where
  "POST_A authorised fresh tutorialId body db =
     (if \<not> authorised then Inl Unauthorized
      else case body of
        None \<Rightarrow> Inl (ServerError ''Failed to create annotation'')
      | Some b \<Rightarrow>
          if \<not> truthy_string (b_title b) \<or> b_x b = Undefined \<or> b_y b = Undefined
             \<or> b_z b = Undefined
          then Inl (BadRequest ''title, x, y, z are required'')
          else
            let finalOrder =
                  (if b_order b = Undefined \<or> b_order b = Null
                   then Val (int (length (existingAnnotations tutorialId db)) + 1)
                   else b_order b);
                newAnnotation = fresh
                  \<lparr>row_tutorialId := tutorialId,
                   row_title := column_value (b_title b),
                   row_content := or_empty (b_content b),
                   row_imageUrl := or_null (b_imageUrl b),
                   row_x := column_value (b_x b),
                   row_y := column_value (b_y b),
                   row_z := column_value (b_z b),
                   row_order := column_value finalOrder\<rparr>
            in Inr (newAnnotation, db @ [newAnnotation]))"

text \<open>
  \<open>POST\<close> of lines 197-252, the other route file: the order is also recomputed when it
  is falsy or 1, and no image is written.
\<close>

definition POST_B ::
  "bool \<Rightarrow> annotation_row \<Rightarrow> string \<Rightarrow> body option \<Rightarrow> annotation_row list
     \<Rightarrow> api_error + annotation_row \<times> annotation_row list" where
  "POST_B authorised fresh tutorialId body db =
     (if \<not> authorised then Inl Unauthorized
      else case body of
        None \<Rightarrow> Inl (ServerError ''Failed to create annotation'')
      | Some b \<Rightarrow>
          if \<not> truthy_string (b_title b) \<or> b_x b = Undefined \<or> b_y b = Undefined
             \<or> b_z b = Undefined
          then Inl (BadRequest ''title, x, y, z are required'')
          else
            let finalOrder =
                  (if \<not> truthy_number (b_order b) \<or> b_order b = Val 1
                   then Val (int (length (existingAnnotations tutorialId db)) + 1)
                   else b_order b);
                newAnnotation = fresh
                  \<lparr>row_tutorialId := tutorialId,
                   row_title := column_value (b_title b),
                   row_content := or_empty (b_content b),
                   row_x := column_value (b_x b),
                   row_y := column_value (b_y b),
                   row_z := column_value (b_z b),
                   row_order := column_value finalOrder\<rparr>
            in Inr (newAnnotation, db @ [newAnnotation]))"

text \<open>
  The object given to \<open>.set\<close>: for each column, \<open>None\<close> when the object has no such key,
  otherwise the value under the key, which may be \<open>undefined\<close>. \<open>updatedAt\<close> is always
  there.
\<close>

record update_data =
  u_title :: "string js option"
  u_content :: "string js option"
  u_x :: "number js option"
  u_y :: "number js option"
  u_z :: "number js option"
  u_order :: "int js option"
  u_imageUrl :: "string js option"
  u_updatedAt :: nat

text \<open>
  What the query builder does with a key whose value is \<open>undefined\<close> is its own
  business and not in the sources: it is a parameter, either the key is ignored or the
  column is set to null.
\<close>

datatype set_policy =
  IgnoreUndefined
| UndefinedIsNull

definition set_column :: "set_policy \<Rightarrow> 'a js option \<Rightarrow> 'a option \<Rightarrow> 'a option" where
  "set_column policy u old =
     (case u of
        None \<Rightarrow> old
      | Some (Val a) \<Rightarrow> Some a
      | Some Null \<Rightarrow> None
      | Some Undefined \<Rightarrow> (case policy of IgnoreUndefined \<Rightarrow> old | UndefinedIsNull \<Rightarrow> None))"

definition apply_set :: "set_policy \<Rightarrow> update_data \<Rightarrow> annotation_row \<Rightarrow> annotation_row" where
  "apply_set policy u r =
     r\<lparr>row_title := set_column policy (u_title u) (row_title r),
       row_content := set_column policy (u_content u) (row_content r),
       row_x := set_column policy (u_x u) (row_x r),
       row_y := set_column policy (u_y u) (row_y r),
       row_z := set_column policy (u_z u) (row_z r),
       row_order := set_column policy (u_order u) (row_order r),
       row_imageUrl := set_column policy (u_imageUrl u) (row_imageUrl r),
       row_updatedAt := u_updatedAt u\<rparr>"

text \<open>
  \<open>db.update(annotation).set(...).where(and(eq(id), eq(tutorialId))).returning()\<close>
  (lines 132-138): the rows that were updated, and the table afterwards.
\<close>

definition db_update ::
  "set_policy \<Rightarrow> update_data \<Rightarrow> string \<Rightarrow> string \<Rightarrow> annotation_row list
     \<Rightarrow> annotation_row list \<times> annotation_row list" where
  "db_update policy u annotationId tutorialId db =
     (let hit = (\<lambda>r. row_id r = annotationId \<and> row_tutorialId r = tutorialId)
      in (map (apply_set policy u) (filter hit db),
          map (\<lambda>r. if hit r then apply_set policy u r else r) db))"

text \<open>Lines 123-130: a key is added only for a property that is not \<open>undefined\<close>.\<close>

definition provided :: "'a js \<Rightarrow> 'a js option" where
  "provided v = (if v \<noteq> Undefined then Some v else None)"

text \<open>
  \<open>PUT\<close> of lines 96-148. The result is \<open>updated\<close>, the first row the update returned
  if there is one, and the table afterwards.
\<close>

definition PUT_A ::
  "set_policy \<Rightarrow> bool \<Rightarrow> nat \<Rightarrow> string \<Rightarrow> body option \<Rightarrow> annotation_row list
     \<Rightarrow> api_error + annotation_row option \<times> annotation_row list" where
  "PUT_A policy authorised now tutorialId body db =
     (if \<not> authorised then Inl Unauthorized
      else case body of
        None \<Rightarrow> Inl (ServerError ''Failed to update annotation'')
      | Some b \<Rightarrow>
          if \<not> truthy_string (b_annotationId b)
          then Inl (BadRequest ''annotationId is required'')
          else
            let updateData =
                  \<lparr>u_title = provided (b_title b),
                   u_content = provided (b_content b),
                   u_x = provided (b_x b),
                   u_y = provided (b_y b),
                   u_z = provided (b_z b),
                   u_order = provided (b_order b),
                   u_imageUrl = provided (b_imageUrl b),
                   u_updatedAt = now\<rparr>;
                (returned, db') =
                  db_update policy updateData (the (column_value (b_annotationId b))) tutorialId db
            in Inr (case returned of [] \<Rightarrow> None | updated # _ \<Rightarrow> Some updated, db'))"

text \<open>
  \<open>PUT\<close> of lines 284-333, the other route file: the six properties are passed to
  \<open>.set\<close> as they are, \<open>undefined\<close> included, and \<open>imageUrl\<close> is not read.
\<close>

definition PUT_B ::
  "set_policy \<Rightarrow> bool \<Rightarrow> nat \<Rightarrow> string \<Rightarrow> body option \<Rightarrow> annotation_row list
     \<Rightarrow> api_error + annotation_row option \<times> annotation_row list" where
  "PUT_B policy authorised now tutorialId body db =
     (if \<not> authorised then Inl Unauthorized
      else case body of
        None \<Rightarrow> Inl (ServerError ''Failed to update annotation'')
      | Some b \<Rightarrow>
          if \<not> truthy_string (b_annotationId b)
          then Inl (BadRequest ''annotationId is required'')
          else
            let updateData =
                  \<lparr>u_title = Some (b_title b),
                   u_content = Some (b_content b),
                   u_x = Some (b_x b),
                   u_y = Some (b_y b),
                   u_z = Some (b_z b),
                   u_order = Some (b_order b),
                   u_imageUrl = None,
                   u_updatedAt = now\<rparr>;
                (returned, db') =
                  db_update policy updateData (the (column_value (b_annotationId b))) tutorialId db
            in Inr (case returned of [] \<Rightarrow> None | updated # _ \<Rightarrow> Some updated, db'))"

text \<open>
  The merge the specification asks of an update (section 9): an omitted field is left
  unchanged, an explicit null clears it, a value replaces it. These two definitions
  follow the specification's words, for comparison with \<open>PUT_A\<close>.
\<close>

definition spec_merge :: "'a js \<Rightarrow> 'a option \<Rightarrow> 'a option" where
  "spec_merge v old = (case v of Undefined \<Rightarrow> old | Null \<Rightarrow> None | Val a \<Rightarrow> Some a)"

definition spec_patch :: "body \<Rightarrow> nat \<Rightarrow> annotation_row \<Rightarrow> annotation_row" where
  "spec_patch b now r =
     r\<lparr>row_title := spec_merge (b_title b) (row_title r),
       row_content := spec_merge (b_content b) (row_content r),
       row_x := spec_merge (b_x b) (row_x r),
       row_y := spec_merge (b_y b) (row_y r),
       row_z := spec_merge (b_z b) (row_z r),
       row_order := spec_merge (b_order b) (row_order r),
       row_imageUrl := spec_merge (b_imageUrl b) (row_imageUrl r),
       row_updatedAt := now\<rparr>"

section \<open>Examples\<close>

definition origin :: vec3 where
  "origin = \<lparr>vx = Num 0, vy = Num 0, vz = Num 0\<rparr>"

definition step_at_origin :: "string \<Rightarrow> int \<Rightarrow> annotation" where
  "step_at_origin i n =
     \<lparr>ann_id = i, ann_title = i, ann_content = [], ann_imageUrl = None,
      ann_x = Num 0, ann_y = Num 0, ann_z = Num 0, ann_order = n\<rparr>"

definition tutorial_ABC :: tutorial where
  "tutorial_ABC =
     \<lparr>tut_id = ''t'',
      tut_annotations = [step_at_origin ''B'' 2, step_at_origin ''C'' 3, step_at_origin ''A'' 1]\<rparr>"

text \<open>The page as the \<open>useState\<close> calls of lines 43-53 initialise it.\<close>

definition initial_page :: "bool \<Rightarrow> page" where
  "initial_page sess =
     \<lparr>session = sess, tutorial = None, currentStep = 0, completedSteps = {},
      saving = False, progressLoaded = False, showWelcome = True,
      cameraPosition = origin, proximityWarning = None\<rparr>"

text \<open>
  A signed-in learner on the tutorial whose steps sort to A, B, C, nothing completed, the
  welcome popup closed.
\<close>

definition page_ABC :: page where
  "page_ABC = (initial_page True)\<lparr>tutorial := Some tutorial_ABC, showWelcome := False\<rparr>"

text \<open>A signed-in learner on a tutorial without annotations.\<close>

definition page_no_steps :: page where
  "page_no_steps =
     (initial_page True)
       \<lparr>tutorial := Some \<lparr>tut_id = ''t'', tut_annotations = []\<rparr>, showWelcome := False\<rparr>"

text \<open>
  The two camera positions of the proximity scenario, \<open>(0, 0, 2.9)\<close> and \<open>(0, 0, 3.1)\<close>;
  the camera at \<open>(2, 2, 0)\<close>, whose distance from the origin is the square root of 8
  while its coordinates add up to 4; and two at the threshold: \<open>(1, 2, 2)\<close>, at distance
  3 from the origin, and the camera one unit in the last place nearer, whose computed
  distance is 3 as well.
\<close>

definition near_camera :: vec3 where
  "near_camera = \<lparr>vx = Num 0, vy = Num 0, vz = lit (29 / 10)\<rparr>"

definition far_camera :: vec3 where
  "far_camera = \<lparr>vx = Num 0, vy = Num 0, vz = lit (31 / 10)\<rparr>"

definition diagonal_camera :: vec3 where
  "diagonal_camera = \<lparr>vx = Num 2, vy = Num 2, vz = Num 0\<rparr>"

definition threshold_camera :: vec3 where
  "threshold_camera = \<lparr>vx = Num 1, vy = Num 2, vz = Num 2\<rparr>"

definition below_threshold_camera :: vec3 where
  "below_threshold_camera = \<lparr>vx = Num 1, vy = Num 2, vz = Num (2 - 1 / 2 ^ 52)\<rparr>"

text \<open>At the last step C with A and B completed, the camera on the marker.\<close>

definition page_AB_done :: page where
  "page_AB_done = page_ABC\<lparr>currentStep := 2, completedSteps := {''A'', ''B''}\<rparr>"

text \<open>
  Projected points on an 800 by 600 canvas: straight behind the camera, behind and far
  to the side, beyond the top left corner, in front, at \<open>x = 1.05\<close> (whose pixel
  position rounds to just below 820), and what the projection gives for a point at the
  camera itself.
\<close>

definition behind_centre :: vec3 where
  "behind_centre = \<lparr>vx = Num 0, vy = Num 0, vz = Num 2\<rparr>"

definition behind_side :: vec3 where
  "behind_side = \<lparr>vx = Num 2, vy = Num 0, vz = Num 2\<rparr>"

definition top_left_corner :: vec3 where
  "top_left_corner = \<lparr>vx = lit (- 6 / 5), vy = lit (6 / 5), vz = Num (1 / 2)\<rparr>"

definition in_front :: vec3 where
  "in_front = \<lparr>vx = Num (1 / 2), vy = Num (1 / 2), vz = Num (1 / 2)\<rparr>"

definition near_right_edge :: vec3 where
  "near_right_edge = \<lparr>vx = lit (21 / 20), vy = Num 0, vz = Num (1 / 2)\<rparr>"

definition at_camera :: vec3 where
  "at_camera = \<lparr>vx = NaN, vy = NaN, vz = NegInfinity\<rparr>"

text \<open>A view whose projection sends every point to \<open>pos\<close>.\<close>

definition fixed_view :: "vec3 \<Rightarrow> number \<Rightarrow> number \<Rightarrow> view" where
  "fixed_view pos width height =
     \<lparr>view_project = (\<lambda>_. pos), view_width = width, view_height = height\<rparr>"

text \<open>
  Two annotations of tutorial \<open>t1\<close>, the row the store's defaults give, and request
  bodies: a new annotation with a given order, an update of every field that clears the
  image, and an update of the order alone.
\<close>

definition empty_body :: body where
  "empty_body =
     \<lparr>b_annotationId = Undefined, b_title = Undefined, b_content = Undefined,
      b_x = Undefined, b_y = Undefined, b_z = Undefined, b_order = Undefined,
      b_imageUrl = Undefined\<rparr>"

definition row_a1 :: annotation_row where
  "row_a1 =
     \<lparr>row_id = ''a1'', row_tutorialId = ''t1'', row_title = Some ''Valve'',
      row_content = Some ''Open it'', row_imageUrl = Some ''pic.png'',
      row_x = Some (Num 1), row_y = Some (Num 2), row_z = Some (Num 3), row_order = Some 1,
      row_updatedAt = 0\<rparr>"

definition row_a2 :: annotation_row where
  "row_a2 =
     \<lparr>row_id = ''a2'', row_tutorialId = ''t1'', row_title = Some ''Gauge'',
      row_content = Some [], row_imageUrl = None,
      row_x = Some (Num 4), row_y = Some (Num 5), row_z = Some (Num 6), row_order = Some 2,
      row_updatedAt = 0\<rparr>"

definition fresh_row :: annotation_row where
  "fresh_row =
     \<lparr>row_id = ''a3'', row_tutorialId = [], row_title = None, row_content = None,
      row_imageUrl = None, row_x = None, row_y = None, row_z = None, row_order = None,
      row_updatedAt = 7\<rparr>"

definition pump_body :: "int js \<Rightarrow> body" where
  "pump_body ord =
     empty_body\<lparr>b_title := Val ''Pump'', b_x := Val (Num 0), b_y := Val (Num 0),
       b_z := Val (Num 0), b_order := ord\<rparr>"

definition pump_row :: "int \<Rightarrow> annotation_row" where
  "pump_row n =
     fresh_row\<lparr>row_tutorialId := ''t1'', row_title := Some ''Pump'', row_content := Some [],
       row_x := Some (Num 0), row_y := Some (Num 0), row_z := Some (Num 0),
       row_order := Some n\<rparr>"

definition clear_image_body :: body where
  "clear_image_body =
     \<lparr>b_annotationId = Val ''a1'', b_title = Val ''Valve'', b_content = Val ''Open it'',
      b_x = Val (Num 1), b_y = Val (Num 2), b_z = Val (Num 3), b_order = Val 1,
      b_imageUrl = Null\<rparr>"

definition reorder_body :: body where
  "reorder_body = empty_body\<lparr>b_annotationId := Val ''a1'', b_order := Val 5\<rparr>"

section \<open>Facts about the helpers\<close>

text \<open>
  Closed arithmetic on doubles is evaluated by rewriting with the definitions of the
  operations; the floor of a quotient of numerals is the integer quotient.
\<close>

lemma floor_rat_numeral [simp]:
  "\<lfloor>numeral a / numeral b :: rat\<rfloor> = numeral a div numeral b"
  using floor_divide_of_int_eq [of "numeral a" "numeral b", where ?'a = rat] by simp

lemma floor_rat_one [simp]:
  "\<lfloor>1 / numeral b :: rat\<rfloor> = 1 div numeral b"
  using floor_divide_of_int_eq [of 1 "numeral b", where ?'a = rat] by simp

lemmas number_eval =
  lit_def round_double_def normalise_def scale_down.simps scale_up.simps round_half_even_def
  pow2_def fadd_def fsub_def fneg_def fmul_def flt_def fle_def fgt_def fge_def sign_of_def
  Math_max_def Math_min_def Math_pow_2_def Math_sqrt_def scale4_down.simps scale4_up.simps
  isqrt_between.simps Let_def

text \<open>
  Some values the operations give: the doubles nearest to 0.1, to \<open>0.1 + 0.2\<close>, to
  \<open>1 - 0.9\<close>, to \<open>1.1 * 1.1\<close>, to the square root of 2 and to the square of 0.1; the
  integers above \<open>2\<^sup>5\<^sup>3\<close>; the operations that give no number.
\<close>

lemma double_examples:
  "lit (1 / 10) = Num (3602879701896397 / 36028797018963968)"
  "fadd (lit (1 / 10)) (lit (2 / 10)) = Num (1351079888211149 / 4503599627370496)"
  "fsub (Num 1) (lit (9 / 10)) = Num (900719925474099 / 9007199254740992)"
  "fmul (lit (11 / 10)) (lit (11 / 10)) = Num (5449355549118301 / 4503599627370496)"
  "Math_sqrt (Num 2) = Num (6369051672525773 / 4503599627370496)"
  "Math_pow_2 (lit (1 / 10)) = Num (1441151880758559 / 144115188075855872)"
  "fadd (Num (2 ^ 53)) (Num 1) = Num (2 ^ 53)"
  "fadd (Num (2 ^ 53)) (Num 3) = Num (2 ^ 53 + 4)"
  "fmul PosInfinity (Num 0) = NaN"
  "fsub PosInfinity PosInfinity = NaN"
  "Math_sqrt (Num (- 1)) = NaN"
  by (simp_all add: number_eval)

lemma fneg_fneg [simp]: "fneg (fneg x) = x"
  by (cases x) (simp_all add: fneg_def)

text \<open>A comparison with an operand that is not a number is false.\<close>

lemma compare_not_a_number:
  "\<not> flt NaN x" "\<not> flt x NaN" "\<not> fle NaN x" "\<not> fle x NaN"
  "\<not> fgt NaN x" "\<not> fgt x NaN" "\<not> fge NaN x" "\<not> fge x NaN"
  by (cases x; simp add: flt_def fle_def fgt_def fge_def)+

text \<open>
  For operands that are numbers, \<open>x\<close> lies in the interval from \<open>a\<close> to \<open>b\<close> exactly when
  neither \<open>x < a\<close> nor \<open>x > b\<close> holds.
\<close>

lemma not_outside_is_within:
  assumes "x \<noteq> NaN" and "a \<noteq> NaN" and "b \<noteq> NaN"
  shows "\<not> flt x a \<and> \<not> fgt x b \<longleftrightarrow> fle a x \<and> fle x b"
  using assms
  by (cases x; cases a; cases b) (auto simp: flt_def fgt_def fle_def)

text \<open>
  Clamping: \<open>Math.max(lo, Math.min(hi, x))\<close> for \<open>lo <= hi\<close> and a number \<open>x\<close>.
\<close>

lemma clamp_cases:
  assumes "fle lo hi" and "x \<noteq> NaN"
  shows "Math_max lo (Math_min hi x) = (if fle x lo then lo else if fge x hi then hi else x)"
  using assms
  by (cases lo; cases hi; cases x)
    (auto simp: fle_def fge_def flt_def Math_max_def Math_min_def)

lemma clamp_bounds:
  assumes "fle lo hi" and "x \<noteq> NaN"
  shows "fle lo (Math_max lo (Math_min hi x)) \<and> fle (Math_max lo (Math_min hi x)) hi"
  using assms
  by (cases lo; cases hi; cases x)
    (auto simp: fle_def fge_def flt_def Math_max_def Math_min_def)

lemma clamp_not_a_number:
  "Math_max lo (Math_min hi NaN) = NaN"
  by (simp add: Math_max_def Math_min_def)


lemma findIndex_from_first:
  "0 \<le> i \<Longrightarrow> findIndex_from P xs i \<noteq> - 1 \<Longrightarrow>
     i \<le> findIndex_from P xs i \<and> findIndex_from P xs i < i + int (length xs) \<and>
     P (xs ! nat (findIndex_from P xs i - i)) \<and>
     (\<forall>j < nat (findIndex_from P xs i - i). \<not> P (xs ! j))"
proof (induction xs arbitrary: i)
  case Nil
  then show ?case by simp
next
  case (Cons a as)
  show ?case
  proof (cases "P a")
    case True
    then show ?thesis by simp
  next
    case False
    let ?r = "findIndex_from P as (i + 1)"
    from Cons.prems False have nz: "?r \<noteq> - 1" and i1: "0 \<le> i + 1" by simp_all
    from Cons.IH [OF i1 nz]
    have ih: "i + 1 \<le> ?r" "?r < i + 1 + int (length as)"
      "P (as ! nat (?r - (i + 1)))" "\<forall>j < nat (?r - (i + 1)). \<not> P (as ! j)"
      by simp_all
    from ih(1) have suc: "nat (?r - i) = Suc (nat (?r - (i + 1)))" by simp
    have before: "\<forall>j < nat (?r - i). \<not> P ((a # as) ! j)"
    proof (intro allI impI)
      fix j assume "j < nat (?r - i)"
      then show "\<not> P ((a # as) ! j)"
        using False ih(4) suc by (cases j) auto
    qed
    from ih suc before False show ?thesis by simp
  qed
qed


lemma findIndex_first:
  assumes "findIndex P xs \<noteq> - 1"
  shows "0 \<le> findIndex P xs \<and> findIndex P xs < int (length xs) \<and>
         P (xs ! nat (findIndex P xs)) \<and> (\<forall>j < nat (findIndex P xs). \<not> P (xs ! j))"
  using findIndex_from_first [of 0 P xs] assms by (simp add: findIndex_def)

lemma sortedAnnotations_warning [simp]:
  "sortedAnnotations (s\<lparr>proximityWarning := w\<rparr>) = sortedAnnotations s"
  by (simp add: sortedAnnotations_def)

lemma currentAnnotation_warning [simp]:
  "currentAnnotation (s\<lparr>proximityWarning := w\<rparr>) = currentAnnotation s"
  by (simp add: currentAnnotation_def)

lemma currentAnnotation_in_sorted:
  "currentAnnotation s = Some a \<Longrightarrow> a \<in> set (sortedAnnotations s)"
  by (auto simp: currentAnnotation_def Let_def split: if_splits)

lemma sorted_ids:
  "ann_id ` set (sortedAnnotations s) = annotation_ids s"
  by (simp add: sortedAnnotations_def annotation_ids_def split: option.split)

lemma sorted_ABC:
  "sortedAnnotations page_ABC = [step_at_origin ''A'' 1, step_at_origin ''B'' 2, step_at_origin ''C'' 3]"
  by (simp add: sortedAnnotations_def page_ABC_def initial_page_def tutorial_ABC_def
      step_at_origin_def)


lemmas example_defs =
  sortedAnnotations_def page_ABC_def initial_page_def tutorial_ABC_def step_at_origin_def origin_def

lemma page_ABC_at_A:
  "currentAnnotation (page_ABC\<lparr>cameraPosition := c\<rparr>) = Some (step_at_origin ''A'' 1)"
  "nextRequiredStep (page_ABC\<lparr>cameraPosition := c\<rparr>) = 0"
  "completedSteps (page_ABC\<lparr>cameraPosition := c\<rparr>) = {}"
  "currentStep (page_ABC\<lparr>cameraPosition := c\<rparr>) = 0"
  "cameraPosition (page_ABC\<lparr>cameraPosition := c\<rparr>) = c"
  by (simp_all add: currentAnnotation_def nextRequiredStep_def findIndex_def example_defs)

text \<open>The computed distance of each example camera from the origin.\<close>

lemma distance_examples:
  "getDistance origin \<lparr>vx = Num 0, vy = Num 0, vz = Num 0\<rparr> = Num 0"
  "getDistance near_camera \<lparr>vx = Num 0, vy = Num 0, vz = Num 0\<rparr> =
     Num (6530219459687219 / 2251799813685248)"
  "getDistance far_camera \<lparr>vx = Num 0, vy = Num 0, vz = Num 0\<rparr> =
     Num (6980579422424269 / 2251799813685248)"
  "getDistance diagonal_camera \<lparr>vx = Num 0, vy = Num 0, vz = Num 0\<rparr> =
     Num (6369051672525773 / 2251799813685248)"
  "getDistance threshold_camera \<lparr>vx = Num 0, vy = Num 0, vz = Num 0\<rparr> = Num 3"
  "getDistance below_threshold_camera \<lparr>vx = Num 0, vy = Num 0, vz = Num 0\<rparr> = Num 3"
  by (simp_all add: getDistance_def origin_def near_camera_def far_camera_def
      diagonal_camera_def threshold_camera_def below_threshold_camera_def number_eval)

lemma near_examples:
  "isNearCurrentAnnotation page_ABC"
  "isNearCurrentAnnotation page_AB_done"
proof -
  have "currentAnnotation page_ABC = Some (step_at_origin ''A'' 1)"
    and "cameraPosition page_ABC = origin"
    by (simp_all add: currentAnnotation_def example_defs)
  then show "isNearCurrentAnnotation page_ABC"
    by (simp add: isNearCurrentAnnotation_def PROXIMITY_THRESHOLD_def step_at_origin_def
        distance_examples flt_def)
  have "currentAnnotation page_AB_done = Some (step_at_origin ''C'' 3)"
    and "cameraPosition page_AB_done = origin"
    by (simp_all add: currentAnnotation_def page_AB_done_def example_defs)
  then show "isNearCurrentAnnotation page_AB_done"
    by (simp add: isNearCurrentAnnotation_def PROXIMITY_THRESHOLD_def step_at_origin_def
        distance_examples flt_def)
qed

lemma page_AB_done_first:
  "markComplete page_AB_done =
     (page_AB_done\<lparr>completedSteps := {''A'', ''B'', ''C''}, saving := True\<rparr>,
      [PostProgress ''t'' {''A'', ''B'', ''C''} True])"
  using near_examples(2)
  by (simp add: markComplete_def saveProgress_def currentAnnotation_def nextRequiredStep_def
      findIndex_def page_AB_done_def example_defs insert_commute Let_def)


lemma sortedAnnotations_currentStep [simp]:
  "sortedAnnotations (s\<lparr>currentStep := i\<rparr>) = sortedAnnotations s"
  by (simp add: sortedAnnotations_def)

lemma sortedAnnotations_completedSteps [simp]:
  "sortedAnnotations (s\<lparr>completedSteps := c\<rparr>) = sortedAnnotations s"
  by (simp add: sortedAnnotations_def)

lemma sortedAnnotations_saving [simp]:
  "sortedAnnotations (s\<lparr>saving := b\<rparr>) = sortedAnnotations s"
  by (simp add: sortedAnnotations_def)

lemma saveProgress_frame:
  "tutorial (fst (saveProgress s c)) = tutorial s"
  "currentStep (fst (saveProgress s c)) = currentStep s"
  "completedSteps (fst (saveProgress s c)) = completedSteps s"
  by (simp_all add: saveProgress_def split: option.split)

lemma sortedAnnotations_cong:
  "tutorial s' = tutorial s \<Longrightarrow> sortedAnnotations s' = sortedAnnotations s"
  by (simp add: sortedAnnotations_def)

lemma annotation_ids_cong:
  "tutorial s' = tutorial s \<Longrightarrow> annotation_ids s' = annotation_ids s"
  by (simp add: annotation_ids_def)

lemma markComplete_tutorial: "tutorial (fst (markComplete s)) = tutorial s"
  by (simp add: markComplete_def saveProgress_def Let_def split: option.split)

lemma markComplete_step:
  "currentStep (fst (markComplete s)) = currentStep s \<or>
   (currentStep s < int (length (sortedAnnotations s)) - 1 \<and>
    currentStep (fst (markComplete s)) = currentStep s + 1)"
  by (simp add: markComplete_def saveProgress_def Let_def split: option.split)

lemma markComplete_completed:
  "completedSteps (fst (markComplete s)) = completedSteps s \<or>
   (\<exists>a. currentAnnotation s = Some a \<and>
        completedSteps (fst (markComplete s)) = insert (ann_id a) (completedSteps s))"
  by (simp add: markComplete_def saveProgress_def Let_def split: option.split)

lemma step_valid_markComplete: "step_valid s \<Longrightarrow> step_valid (fst (markComplete s))"
  using markComplete_step [of s] sortedAnnotations_cong [OF markComplete_tutorial [of s]]
  by (auto simp: step_valid_def)


lemma handleKeyDown_cases:
  "handleKeyDown k s = (s, []) \<or> handleKeyDown k s = markComplete s \<or>
   (currentStep s < int (length (sortedAnnotations s)) - 1 \<and>
    handleKeyDown k s = (s\<lparr>currentStep := currentStep s + 1\<rparr>, [])) \<or>
   (0 < currentStep s \<and> handleKeyDown k s = (s\<lparr>currentStep := currentStep s - 1\<rparr>, []))"
  by (simp add: handleKeyDown_def)

lemma step_valid_handleKeyDown:
  assumes "step_valid s"
  shows "step_valid (fst (handleKeyDown k s))"
proof -
  consider (same) "handleKeyDown k s = (s, [])"
    | (mark) "handleKeyDown k s = markComplete s"
    | (right) "currentStep s < int (length (sortedAnnotations s)) - 1"
        "handleKeyDown k s = (s\<lparr>currentStep := currentStep s + 1\<rparr>, [])"
    | (left) "0 < currentStep s"
        "handleKeyDown k s = (s\<lparr>currentStep := currentStep s - 1\<rparr>, [])"
    using handleKeyDown_cases [of k s] by blast
  then show ?thesis
  proof cases
    case same
    with assms show ?thesis by simp
  next
    case mark
    with assms show ?thesis by (simp add: step_valid_markComplete)
  next
    case right
    with assms show ?thesis by (auto simp: step_valid_def)
  next
    case left
    with assms show ?thesis by (auto simp: step_valid_def)
  qed
qed

lemma step_valid_onAnnotationClick: "step_valid s \<Longrightarrow> step_valid (onAnnotationClick a s)"
  using findIndex_first [of "\<lambda>b. ann_id b = ann_id a" "sortedAnnotations s"]
  by (auto simp: onAnnotationClick_def Let_def step_valid_def)


lemma currentAnnotation_id_known:
  assumes "currentAnnotation s = Some a"
  shows "ann_id a \<in> annotation_ids s"
proof -
  from assms have "a \<in> set (sortedAnnotations s)"
    by (rule currentAnnotation_in_sorted)
  then have "ann_id a \<in> ann_id ` set (sortedAnnotations s)"
    by (rule imageI)
  then show ?thesis
    by (simp add: sorted_ids)
qed

lemma completed_known_markComplete:
  assumes "completed_known s"
  shows "completed_known (fst (markComplete s))"
proof -
  have ids: "annotation_ids (fst (markComplete s)) = annotation_ids s"
    by (rule annotation_ids_cong) (rule markComplete_tutorial)
  from markComplete_completed [of s] show ?thesis
  proof
    assume "completedSteps (fst (markComplete s)) = completedSteps s"
    with assms ids show ?thesis by (simp add: completed_known_def)
  next
    assume "\<exists>a. currentAnnotation s = Some a \<and>
        completedSteps (fst (markComplete s)) = insert (ann_id a) (completedSteps s)"
    then obtain a where a: "currentAnnotation s = Some a"
      and c: "completedSteps (fst (markComplete s)) = insert (ann_id a) (completedSteps s)"
      by blast
    from currentAnnotation_id_known [OF a] assms ids c show ?thesis
      by (simp add: completed_known_def)
  qed
qed

lemma completed_known_handleKeyDown:
  assumes "completed_known s"
  shows "completed_known (fst (handleKeyDown k s))"
proof -
  consider (same) "handleKeyDown k s = (s, [])"
    | (mark) "handleKeyDown k s = markComplete s"
    | (right) "handleKeyDown k s = (s\<lparr>currentStep := currentStep s + 1\<rparr>, [])"
    | (left) "handleKeyDown k s = (s\<lparr>currentStep := currentStep s - 1\<rparr>, [])"
    using handleKeyDown_cases [of k s] by blast
  then show ?thesis
  proof cases
    case same
    with assms show ?thesis by simp
  next
    case mark
    with assms show ?thesis by (simp add: completed_known_markComplete)
  next
    case right
    with assms show ?thesis by (simp add: completed_known_def annotation_ids_def)
  next
    case left
    with assms show ?thesis by (simp add: completed_known_def annotation_ids_def)
  qed
qed

lemma annotation_ids_ABC: "annotation_ids page_ABC = {''A'', ''B'', ''C''}"
  by (auto simp: annotation_ids_def page_ABC_def initial_page_def tutorial_ABC_def step_at_origin_def)

lemma completed_known_page_ABC: "completed_known page_ABC"
  by (simp add: completed_known_def) (simp add: page_ABC_def initial_page_def)

lemma step_valid_initial: "step_valid ((initial_page sess)\<lparr>tutorial := Some t\<rparr>)"
proof -
  have "xs \<noteq> [] \<Longrightarrow> 0 \<le> int (length xs) - 1" for xs :: "annotation list"
    by (cases xs) simp_all
  then show ?thesis
    by (simp add: step_valid_def initial_page_def)
qed

lemma completed_known_initial: "completed_known ((initial_page sess)\<lparr>tutorial := Some t\<rparr>)"
  by (simp add: completed_known_def initial_page_def)

lemmas overlay_defs =
  place_def indicator_def marker_def indicator_style_def classList_add_def ascii_whitespace_def
  badge_def isOffScreen_def isBehind_def screenX_def screenY_def edgeX_def edgeY_def
  clampedX_def clampedY_def padding_def margin_def


lemma indicator_style_direction:
  "fst (indicator_style pos width height) =
     (if fle (edgeX pos width) (Num 60) then ''left''
      else if fge (edgeX pos width) (fsub width (Num 60)) then ''right''
      else if fle (edgeY pos height) (Num 60) then ''top''
      else if fge (edgeY pos height) (fsub height (Num 60)) then ''bottom''
      else [])"
  by (simp add: indicator_style_def padding_def)

lemma indicator_style_corner:
  "fle (edgeX pos width) (Num 60) \<Longrightarrow> fle (edgeY pos height) (Num 60) \<Longrightarrow>
     fst (indicator_style pos width height) = ''left''"
  by (simp add: indicator_style_def padding_def)

lemma edge_mirrored:
  "edgeX pos width =
     (if fgt (vz pos) (Num 1)
      then fmul (fadd (fmul (fneg (vx pos)) (Num (1 / 2))) (Num (1 / 2))) width
      else screenX pos width)"
  "edgeY pos height =
     (if fgt (vz pos) (Num 1)
      then fmul (fadd (fmul (vy pos) (Num (1 / 2))) (Num (1 / 2))) height
      else screenY pos height)"
  by (simp_all add: edgeX_def edgeY_def isBehind_def Let_def)

lemma indicator_style_clamped:
  assumes "fle (Num 60) (fsub width (Num 60))" and "fle (Num 60) (fsub height (Num 60))"
    and "edgeX pos width \<noteq> NaN" and "edgeY pos height \<noteq> NaN"
  shows "fst (snd (indicator_style pos width height)) = clampedX pos width \<and>
         snd (snd (indicator_style pos width height)) = clampedY pos height \<and>
         fle (Num 60) (clampedX pos width) \<and> fle (clampedX pos width) (fsub width (Num 60)) \<and>
         fle (Num 60) (clampedY pos height) \<and> fle (clampedY pos height) (fsub height (Num 60))"
proof -
  note cx = clamp_cases [OF assms(1) assms(3)] and cy = clamp_cases [OF assms(2) assms(4)]
  have left: "fst (snd (indicator_style pos width height)) = clampedX pos width"
    by (simp add: indicator_style_def clampedX_def padding_def cx)
  have top: "snd (snd (indicator_style pos width height)) = clampedY pos height"
    by (simp add: indicator_style_def clampedY_def padding_def cy)
  from clamp_bounds [OF assms(1) assms(3)] clamp_bounds [OF assms(2) assms(4)] left top
  show ?thesis
    by (simp add: clampedX_def clampedY_def padding_def)
qed

lemma indicator_style_interior:
  "fst (indicator_style pos width height) = [] \<longleftrightarrow>
     \<not> fle (edgeX pos width) padding \<and> \<not> fge (edgeX pos width) (fsub width padding) \<and>
     \<not> fle (edgeY pos height) padding \<and> \<not> fge (edgeY pos height) (fsub height padding)"
  by (simp add: indicator_style_def)

lemma off_bounds_has_direction:
  assumes "isOffScreen pos width height" and "\<not> isBehind pos"
    and "fle (fsub width padding) (fadd width margin)"
    and "fle (fsub height padding) (fadd height margin)"
  shows "fst (indicator_style pos width height) \<noteq> []"
proof -
  from assms(2)
  have same: "edgeX pos width = screenX pos width" "edgeY pos height = screenY pos height"
    by (simp_all add: edgeX_def edgeY_def)
  have low: "flt x (fneg margin) \<Longrightarrow> fle x padding" for x
    by (cases x) (simp_all add: flt_def fle_def fneg_def margin_def padding_def)
  have high: "fgt x b \<Longrightarrow> fle a b \<Longrightarrow> fge x a" for x a b
    by (cases x; cases a; cases b) (auto simp: fgt_def fge_def flt_def fle_def)
  from assms(1) assms(2)
  consider "flt (screenX pos width) (fneg margin)"
    | "fgt (screenX pos width) (fadd width margin)"
    | "flt (screenY pos height) (fneg margin)"
    | "fgt (screenY pos height) (fadd height margin)"
    by (auto simp: isOffScreen_def)
  then have "fle (edgeX pos width) padding \<or> fge (edgeX pos width) (fsub width padding)
      \<or> fle (edgeY pos height) padding \<or> fge (edgeY pos height) (fsub height padding)"
  proof cases
    case 1
    from low [OF this] same show ?thesis by simp
  next
    case 2
    from high [OF this assms(3)] same show ?thesis by simp
  next
    case 3
    from low [OF this] same show ?thesis by simp
  next
    case 4
    from high [OF this assms(4)] same show ?thesis by simp
  qed
  then show ?thesis
    by (auto simp: indicator_style_interior)
qed

lemma classList_add_direction:
  assumes "d \<in> {''left'', ''right'', ''top'', ''bottom''}"
  shows "classList_add ([''offscreen-indicator''] @ (if b then [''active''] else [])) d =
         Inr ([''offscreen-indicator''] @ (if b then [''active''] else []) @ [d])"
proof -
  from assms consider "d = ''left''" | "d = ''right''" | "d = ''top''" | "d = ''bottom''"
    by blast
  then show ?thesis
    by cases (simp_all add: classList_add_def ascii_whitespace_def)
qed

lemma indicator_style_directions:
  "fst (indicator_style pos width height) \<in> {[], ''left'', ''right'', ''top'', ''bottom''}"
  by (simp add: indicator_style_def)

lemma indicator_with_direction:
  assumes "fst (indicator_style pos width height) \<noteq> []"
  shows "indicator ann index active pos width height =
           Inr \<lparr>el_classes =
                  [''offscreen-indicator'']
                  @ (if Some (ann_id ann) = active then [''active''] else [])
                  @ [fst (indicator_style pos width height)],
                el_left = fst (snd (indicator_style pos width height)),
                el_top = snd (snd (indicator_style pos width height)),
                el_badge = badge ann index\<rparr>"
proof -
  from assms indicator_style_directions [of pos width height]
  have "fst (indicator_style pos width height) \<in> {''left'', ''right'', ''top'', ''bottom''}"
    by blast
  from classList_add_direction [OF this] show ?thesis
    by (simp add: indicator_def split_beta)
qed

lemma classList_add_head:
  "classList_add (c # cs) token = Inr classes \<Longrightarrow> hd classes = c"
  by (auto simp: classList_add_def split: if_splits)

lemma indicator_head:
  assumes "indicator ann index active pos width height = Inr el"
  shows "hd (el_classes el) = ''offscreen-indicator''"
proof -
  obtain d l t where st: "indicator_style pos width height = (d, l, t)"
    by (cases "indicator_style pos width height") auto
  from assms st obtain classes
    where add: "classList_add
                  (''offscreen-indicator'' # (if Some (ann_id ann) = active then [''active''] else []))
                  d = Inr classes"
      and el: "el_classes el = classes"
    by (auto simp: indicator_def split: sum.splits)
  from classList_add_head [OF add] el show ?thesis
    by simp
qed

lemma canvas_800_600:
  "fle (fsub (Num 800) padding) (fadd (Num 800) margin)"
  "fle (fsub (Num 600) padding) (fadd (Num 600) margin)"
  "fle (Num 60) (fsub (Num 800) (Num 60))"
  "fle (Num 60) (fsub (Num 600) (Num 60))"
  "fadd (Num 800) (Num 20) = Num 820"
  "fadd (Num 600) (Num 20) = Num 620"
  by (simp_all add: padding_def margin_def number_eval)

lemma mirrored_indicator_left:
  "place (\<lambda>_. behind_side) None (Num 800) (Num 600) (step_at_origin ''A'' 1) 0 =
     Inr \<lparr>el_classes = [''offscreen-indicator'', ''left''], el_left = Num 60,
          el_top = Num 300, el_badge = 1\<rparr>"
  by (simp add: overlay_defs behind_side_def step_at_origin_def number_eval)

lemma corner_indicator_left:
  "place (\<lambda>_. top_left_corner) (Some ''A'') (Num 800) (Num 600) (step_at_origin ''A'' 1) 0 =
     Inr \<lparr>el_classes = [''offscreen-indicator'', ''active'', ''left''], el_left = Num 60,
          el_top = Num 60, el_badge = 1\<rparr>"
  by (simp add: overlay_defs top_left_corner_def step_at_origin_def number_eval)

lemma marker_in_front:
  "place (\<lambda>_. in_front) None (Num 800) (Num 600) (step_at_origin ''A'' 1) 0 =
     Inr \<lparr>el_classes = [''annotation-marker''], el_left = Num 600, el_top = Num 150,
          el_badge = 1\<rparr>"
  by (simp add: overlay_defs in_front_def step_at_origin_def number_eval)

lemma marker_at_camera:
  "place (\<lambda>_. at_camera) None (Num 800) (Num 600) (step_at_origin ''A'' 1) 0 =
     Inr \<lparr>el_classes = [''annotation-marker''], el_left = NaN, el_top = NaN, el_badge = 1\<rparr>"
  by (simp add: overlay_defs at_camera_def step_at_origin_def number_eval)

lemma narrow_viewport_indicator:
  "place (\<lambda>_. \<lparr>vx = lit (- 2 / 5), vy = Num 0, vz = Num 2\<rparr>) None (Num 100) (Num 100)
     (step_at_origin ''A'' 1) 0 =
     Inr \<lparr>el_classes = [''offscreen-indicator'', ''right''], el_left = Num 40,
          el_top = Num 60, el_badge = 1\<rparr>"
  by (simp add: overlay_defs step_at_origin_def number_eval)

lemmas route_defs =
  truthy_string_def truthy_number_def column_value_def or_empty_def or_null_def
  existingAnnotations_def db_update_def apply_set_def set_column_def provided_def


lemma set_column_provided: "set_column policy (provided v) old = spec_merge v old"
  by (cases v) (simp_all add: set_column_def provided_def spec_merge_def)

lemma apply_set_provided:
  "apply_set policy
     \<lparr>u_title = provided (b_title b), u_content = provided (b_content b),
      u_x = provided (b_x b), u_y = provided (b_y b), u_z = provided (b_z b),
      u_order = provided (b_order b), u_imageUrl = provided (b_imageUrl b),
      u_updatedAt = now\<rparr> r = spec_patch b now r"
  by (simp add: apply_set_def spec_patch_def set_column_provided)

lemma PUT_A_is_spec_patch:
  assumes "PUT_A policy authorised now tutorialId (Some b) db = Inr (updated, db')"
  shows "db' = map (\<lambda>r. if row_id r = the (column_value (b_annotationId b))
                          \<and> row_tutorialId r = tutorialId
                        then spec_patch b now r else r) db"
proof -
  from assms have "authorised" and "truthy_string (b_annotationId b)"
    by (auto simp: PUT_A_def split: if_splits)
  with assms have "db' =
      snd (db_update policy
        \<lparr>u_title = provided (b_title b), u_content = provided (b_content b),
         u_x = provided (b_x b), u_y = provided (b_y b), u_z = provided (b_z b),
         u_order = provided (b_order b), u_imageUrl = provided (b_imageUrl b),
         u_updatedAt = now\<rparr>
        (the (column_value (b_annotationId b))) tutorialId db)"
    by (simp add: PUT_A_def Let_def split_beta)
  then show ?thesis
    by (simp add: db_update_def Let_def apply_set_provided)
qed

lemma POST_A_order:
  assumes "POST_A authorised fresh tutorialId (Some b) db = Inr (new, db')"
  shows "db' = db @ [new] \<and>
         row_order new =
           (if b_order b = Undefined \<or> b_order b = Null
            then Some (int (length (existingAnnotations tutorialId db)) + 1)
            else column_value (b_order b))"
  using assms
  by (auto simp: POST_A_def Let_def column_value_def split: if_splits)

lemma POST_B_order:
  assumes "POST_B authorised fresh tutorialId (Some b) db = Inr (new, db')"
  shows "db' = db @ [new] \<and>
         row_order new =
           (if \<not> truthy_number (b_order b) \<or> b_order b = Val 1
            then Some (int (length (existingAnnotations tutorialId db)) + 1)
            else column_value (b_order b))"
  using assms
  by (auto simp: POST_B_def Let_def column_value_def split: if_splits)

lemma spec_patch_omitted:
  "b_title b = Undefined \<Longrightarrow> row_title (spec_patch b now r) = row_title r"
  "b_content b = Undefined \<Longrightarrow> row_content (spec_patch b now r) = row_content r"
  "b_x b = Undefined \<Longrightarrow> row_x (spec_patch b now r) = row_x r"
  "b_y b = Undefined \<Longrightarrow> row_y (spec_patch b now r) = row_y r"
  "b_z b = Undefined \<Longrightarrow> row_z (spec_patch b now r) = row_z r"
  "b_order b = Undefined \<Longrightarrow> row_order (spec_patch b now r) = row_order r"
  "b_imageUrl b = Undefined \<Longrightarrow> row_imageUrl (spec_patch b now r) = row_imageUrl r"
  "b_imageUrl b = Null \<Longrightarrow> row_imageUrl (spec_patch b now r) = None"
  by (simp_all add: spec_patch_def spec_merge_def)

lemma PUT_A_reorder_only:
  "PUT_A policy True 9 ''t1'' (Some reorder_body) [row_a1, row_a2] =
     Inr (Some (row_a1\<lparr>row_order := Some 5, row_updatedAt := 9\<rparr>),
          [row_a1\<lparr>row_order := Some 5, row_updatedAt := 9\<rparr>, row_a2])"
  by (simp add: PUT_A_def route_defs reorder_body_def empty_body_def row_a1_def row_a2_def
      Let_def)

lemma PUT_B_reorder_only:
  "PUT_B IgnoreUndefined True 9 ''t1'' (Some reorder_body) [row_a1, row_a2] =
     Inr (Some (row_a1\<lparr>row_order := Some 5, row_updatedAt := 9\<rparr>),
          [row_a1\<lparr>row_order := Some 5, row_updatedAt := 9\<rparr>, row_a2])"
  "PUT_B UndefinedIsNull True 9 ''t1'' (Some reorder_body) [row_a1, row_a2] =
     Inr (Some (row_a1\<lparr>row_title := None, row_content := None, row_x := None, row_y := None,
                  row_z := None, row_order := Some 5, row_updatedAt := 9\<rparr>),
          [row_a1\<lparr>row_title := None, row_content := None, row_x := None, row_y := None,
                  row_z := None, row_order := Some 5, row_updatedAt := 9\<rparr>, row_a2])"
  by (simp_all add: PUT_B_def route_defs reorder_body_def empty_body_def row_a1_def row_a2_def
      Let_def)

section \<open>Marking a step complete\<close>

lemma sortedAnnotations_empty:
  "tut_annotations t = [] \<Longrightarrow> sortedAnnotations (s\<lparr>tutorial := Some t\<rparr>) = []"
  by (simp add: sortedAnnotations_def)

lemma currentAnnotation_no_steps:
  "sortedAnnotations s = [] \<Longrightarrow> currentAnnotation s = None"
  by (simp add: currentAnnotation_def Let_def)

text \<open>
  C10. With no annotations there is no current annotation, and \<open>markComplete\<close> returns
  the page exactly as it was (completed set, step index, warning and saving flag
  included) and sends no request.
\<close>

theorem markComplete_no_annotations:
  "sortedAnnotations s = [] \<Longrightarrow> markComplete s = (s, [])"
  by (simp add: markComplete_def currentAnnotation_no_steps)

theorem markComplete_no_annotations_witness:
  "sortedAnnotations page_no_steps = [] \<and> markComplete page_no_steps = (page_no_steps, [])"
proof -
  have h: "sortedAnnotations page_no_steps = []"
    by (simp add: sortedAnnotations_def page_no_steps_def initial_page_def)
  show ?thesis
    using h markComplete_no_annotations [OF h] by simp
qed




text \<open>
  The order of the checks: on a completed current step the already-completed warning is
  given, whatever the next required step is.
\<close>

lemma already_completed_before_sequential:
  "nextRequiredStep (page_ABC\<lparr>completedSteps := {''A''}\<rparr>) = 1 \<and>
   currentStep (page_ABC\<lparr>completedSteps := {''A''}\<rparr>) = 0 \<and>
   markComplete (page_ABC\<lparr>completedSteps := {''A''}\<rparr>) =
     (page_ABC\<lparr>completedSteps := {''A''},
        proximityWarning := Some ''This step is already completed!''\<rparr>, [ClearWarningTimer])"
  by (simp add: markComplete_def currentAnnotation_def nextRequiredStep_def findIndex_def
      sortedAnnotations_def page_ABC_def initial_page_def tutorial_ABC_def step_at_origin_def)


text \<open>
  C4. When \<open>markComplete\<close> reaches the proximity check (the current annotation exists, is
  not completed, and the sequential check passes), the check passes exactly when the
  Euclidean distance between the camera and the annotation, as the code computes it in
  doubles (the square root of the sum of the three squared coordinate differences), is
  strictly below 3. When it fails, the proximity warning is set, its timer is started
  and nothing else changes; when it passes, the annotation's id joins the completed set
  and the warning is cleared.
\<close>

theorem markComplete_proximity_gate:
  assumes "currentAnnotation s = Some a" and "ann_id a \<notin> completedSteps s"
    and "nextRequiredStep s = - 1 \<or> currentStep s = nextRequiredStep s"
  shows "(isNearCurrentAnnotation s \<longleftrightarrow>
            flt (Math_sqrt
                   (fadd
                      (fadd (Math_pow_2 (fsub (vx (cameraPosition s)) (ann_x a)))
                            (Math_pow_2 (fsub (vy (cameraPosition s)) (ann_y a))))
                      (Math_pow_2 (fsub (vz (cameraPosition s)) (ann_z a)))))
              (Num 3)) \<and>
         (\<not> isNearCurrentAnnotation s \<longrightarrow>
            markComplete s =
              (s\<lparr>proximityWarning := Some ''Move closer to the marker to complete this step!''\<rparr>,
               [ClearWarningTimer])) \<and>
         (isNearCurrentAnnotation s \<longrightarrow>
            completedSteps (fst (markComplete s)) = insert (ann_id a) (completedSteps s) \<and>
            proximityWarning (fst (markComplete s)) = None)"
proof (intro conjI impI)
  show "isNearCurrentAnnotation s \<longleftrightarrow>
          flt (Math_sqrt
                 (fadd
                    (fadd (Math_pow_2 (fsub (vx (cameraPosition s)) (ann_x a)))
                          (Math_pow_2 (fsub (vy (cameraPosition s)) (ann_y a))))
                    (Math_pow_2 (fsub (vz (cameraPosition s)) (ann_z a)))))
            (Num 3)"
    using assms(1)
    by (simp add: isNearCurrentAnnotation_def getDistance_def PROXIMITY_THRESHOLD_def)
next
  assume "\<not> isNearCurrentAnnotation s"
  with assms show "markComplete s =
      (s\<lparr>proximityWarning := Some ''Move closer to the marker to complete this step!''\<rparr>,
       [ClearWarningTimer])"
    by (auto simp: markComplete_def)
next
  assume near: "isNearCurrentAnnotation s"
  with assms show "completedSteps (fst (markComplete s)) = insert (ann_id a) (completedSteps s)"
    by (auto simp: markComplete_def saveProgress_def Let_def split: option.split)
  from near assms show "proximityWarning (fst (markComplete s)) = None"
    by (auto simp: markComplete_def saveProgress_def Let_def split: option.split)
qed

theorem markComplete_proximity_gate_witness:
  "isNearCurrentAnnotation (page_ABC\<lparr>cameraPosition := near_camera\<rparr>) \<and>
   completedSteps (fst (markComplete (page_ABC\<lparr>cameraPosition := near_camera\<rparr>))) = {''A''} \<and>
   \<not> isNearCurrentAnnotation (page_ABC\<lparr>cameraPosition := far_camera\<rparr>) \<and>
   markComplete (page_ABC\<lparr>cameraPosition := far_camera\<rparr>) =
     (page_ABC\<lparr>cameraPosition := far_camera,
        proximityWarning := Some ''Move closer to the marker to complete this step!''\<rparr>,
      [ClearWarningTimer]) \<and>
   isNearCurrentAnnotation (page_ABC\<lparr>cameraPosition := diagonal_camera\<rparr>) \<and>
   completedSteps (fst (markComplete (page_ABC\<lparr>cameraPosition := diagonal_camera\<rparr>))) = {''A''} \<and>
   \<not> isNearCurrentAnnotation (page_ABC\<lparr>cameraPosition := threshold_camera\<rparr>) \<and>
   \<not> isNearCurrentAnnotation (page_ABC\<lparr>cameraPosition := below_threshold_camera\<rparr>) \<and>
   markComplete (page_ABC\<lparr>cameraPosition := below_threshold_camera\<rparr>) =
     (page_ABC\<lparr>cameraPosition := below_threshold_camera,
        proximityWarning := Some ''Move closer to the marker to complete this step!''\<rparr>,
      [ClearWarningTimer])"
proof -
  have reached:
    "currentAnnotation (page_ABC\<lparr>cameraPosition := c\<rparr>) = Some (step_at_origin ''A'' 1)"
    "ann_id (step_at_origin ''A'' 1) \<notin> completedSteps (page_ABC\<lparr>cameraPosition := c\<rparr>)"
    "nextRequiredStep (page_ABC\<lparr>cameraPosition := c\<rparr>) = - 1
       \<or> currentStep (page_ABC\<lparr>cameraPosition := c\<rparr>) = nextRequiredStep (page_ABC\<lparr>cameraPosition := c\<rparr>)"
    for c
    by (simp_all add: page_ABC_at_A)
  have gate:
    "(isNearCurrentAnnotation (page_ABC\<lparr>cameraPosition := c\<rparr>) \<longleftrightarrow>
        flt (getDistance c \<lparr>vx = Num 0, vy = Num 0, vz = Num 0\<rparr>) (Num 3)) \<and>
     (\<not> isNearCurrentAnnotation (page_ABC\<lparr>cameraPosition := c\<rparr>) \<longrightarrow>
        markComplete (page_ABC\<lparr>cameraPosition := c\<rparr>) =
          (page_ABC\<lparr>cameraPosition := c,
             proximityWarning := Some ''Move closer to the marker to complete this step!''\<rparr>,
           [ClearWarningTimer])) \<and>
     (isNearCurrentAnnotation (page_ABC\<lparr>cameraPosition := c\<rparr>) \<longrightarrow>
        completedSteps (fst (markComplete (page_ABC\<lparr>cameraPosition := c\<rparr>))) = {''A''})"
    for c
    using markComplete_proximity_gate [OF reached, of c]
    by (simp add: page_ABC_at_A getDistance_def step_at_origin_def)
  have near: "flt (Num (6530219459687219 / 2251799813685248)) (Num 3)"
    and far: "\<not> flt (Num (6980579422424269 / 2251799813685248)) (Num 3)"
    and diagonal: "flt (Num (6369051672525773 / 2251799813685248)) (Num 3)"
    and threshold: "\<not> flt (Num 3) (Num 3)"
    by (simp_all add: flt_def)
  from gate [of near_camera] near
  have c1: "isNearCurrentAnnotation (page_ABC\<lparr>cameraPosition := near_camera\<rparr>)"
    and c2: "completedSteps (fst (markComplete (page_ABC\<lparr>cameraPosition := near_camera\<rparr>))) = {''A''}"
    by (simp_all add: distance_examples)
  from gate [of far_camera] far
  have c3: "\<not> isNearCurrentAnnotation (page_ABC\<lparr>cameraPosition := far_camera\<rparr>)"
    and c4: "markComplete (page_ABC\<lparr>cameraPosition := far_camera\<rparr>) =
      (page_ABC\<lparr>cameraPosition := far_camera,
         proximityWarning := Some ''Move closer to the marker to complete this step!''\<rparr>,
       [ClearWarningTimer])"
    by (simp_all add: distance_examples)
  from gate [of diagonal_camera] diagonal
  have c5: "isNearCurrentAnnotation (page_ABC\<lparr>cameraPosition := diagonal_camera\<rparr>)"
    and c6: "completedSteps (fst (markComplete (page_ABC\<lparr>cameraPosition := diagonal_camera\<rparr>))) = {''A''}"
    by (simp_all add: distance_examples)
  from gate [of threshold_camera] threshold
  have c7: "\<not> isNearCurrentAnnotation (page_ABC\<lparr>cameraPosition := threshold_camera\<rparr>)"
    by (simp add: distance_examples)
  from gate [of below_threshold_camera] threshold
  have c8: "\<not> isNearCurrentAnnotation (page_ABC\<lparr>cameraPosition := below_threshold_camera\<rparr>)"
    and c9: "markComplete (page_ABC\<lparr>cameraPosition := below_threshold_camera\<rparr>) =
      (page_ABC\<lparr>cameraPosition := below_threshold_camera,
         proximityWarning := Some ''Move closer to the marker to complete this step!''\<rparr>,
       [ClearWarningTimer])"
    by (simp_all add: distance_examples)
  from c1 c2 c3 c4 c5 c6 c7 c8 c9 show ?thesis
    by simp
qed

text \<open>
  C5. When the id of the current annotation is in the completed set already,
  \<open>markComplete\<close> only sets the already-completed warning and starts its timer: the
  completed set, the step index and the saving flag are as before, no request is sent,
  and calling it again gives the same result.
\<close>

theorem markComplete_already_completed:
  assumes "currentAnnotation s = Some a" and "ann_id a \<in> completedSteps s"
  shows "markComplete s =
           (s\<lparr>proximityWarning := Some ''This step is already completed!''\<rparr>, [ClearWarningTimer]) \<and>
         completedSteps (fst (markComplete s)) = completedSteps s \<and>
         currentStep (fst (markComplete s)) = currentStep s \<and>
         saving (fst (markComplete s)) = saving s \<and>
         snd (markComplete s) = [ClearWarningTimer] \<and>
         markComplete (fst (markComplete s)) = markComplete s"
proof -
  have first: "markComplete s =
      (s\<lparr>proximityWarning := Some ''This step is already completed!''\<rparr>, [ClearWarningTimer])"
    using assms by (simp add: markComplete_def)
  have again: "markComplete (s\<lparr>proximityWarning := Some ''This step is already completed!''\<rparr>) =
      (s\<lparr>proximityWarning := Some ''This step is already completed!''\<rparr>, [ClearWarningTimer])"
    using assms by (simp add: markComplete_def)
  show ?thesis
    by (simp add: first again)
qed

lemma page_AB_done_then:
  "currentAnnotation (fst (markComplete page_AB_done)) = Some (step_at_origin ''C'' 3)"
  "completedSteps (fst (markComplete page_AB_done)) = {''A'', ''B'', ''C''}"
  "currentStep (fst (markComplete page_AB_done)) = 2"
  unfolding page_AB_done_first
  by (simp_all add: currentAnnotation_def page_AB_done_def example_defs)

theorem markComplete_already_completed_witness:
  "snd (markComplete page_AB_done) = [PostProgress ''t'' {''A'', ''B'', ''C''} True] \<and>
   completedSteps (fst (markComplete page_AB_done)) = {''A'', ''B'', ''C''} \<and>
   currentStep (fst (markComplete page_AB_done)) = 2 \<and>
   snd (markComplete (fst (markComplete page_AB_done))) = [ClearWarningTimer] \<and>
   completedSteps (fst (markComplete (fst (markComplete page_AB_done)))) = {''A'', ''B'', ''C''} \<and>
   currentStep (fst (markComplete (fst (markComplete page_AB_done)))) = 2 \<and>
   proximityWarning (fst (markComplete (fst (markComplete page_AB_done)))) =
     Some ''This step is already completed!''"
  using markComplete_already_completed
    [of "fst (markComplete page_AB_done)" "step_at_origin ''C'' 3"]
  by (simp add: page_AB_done_then step_at_origin_def) (simp add: page_AB_done_first)


section \<open>The invariants of the progression session\<close>

text \<open>
  C6 (amended). A step index that is valid for the sorted annotation list (between 0 and
  \<open>stepCount - 1\<close> when the list is not empty) stays valid under the arrow keys, Enter
  and the space key, the Previous and Next buttons, \<open>markComplete\<close> and a click on a
  marker. \<open>goToStep index\<close> does not clamp: it stores \<open>index\<close> as it is, so the index is
  valid afterwards exactly when \<open>index\<close> already lies between 0 and \<open>stepCount - 1\<close>,
  which is what the step list passes (its own indices).
\<close>

theorem step_valid_preserved:
  assumes "step_valid s"
  shows "step_valid (fst (handleKeyDown key s)) \<and>
         step_valid (previousClick s) \<and>
         step_valid (nextClick s) \<and>
         step_valid (fst (markComplete s)) \<and>
         step_valid (onAnnotationClick ann s) \<and>
         (step_valid (goToStep index s) \<longleftrightarrow>
            sortedAnnotations s = [] \<or>
            (0 \<le> index \<and> index \<le> int (length (sortedAnnotations s)) - 1))"
proof (intro conjI)
  show "step_valid (fst (handleKeyDown key s))"
    using assms by (rule step_valid_handleKeyDown)
  show "step_valid (previousClick s)"
    using assms by (auto simp: previousClick_def step_valid_def)
  show "step_valid (nextClick s)"
    using assms by (auto simp: nextClick_def step_valid_def)
  show "step_valid (fst (markComplete s))"
    using assms by (rule step_valid_markComplete)
  show "step_valid (onAnnotationClick ann s)"
    using assms by (rule step_valid_onAnnotationClick)
  show "step_valid (goToStep index s) \<longleftrightarrow>
          sortedAnnotations s = [] \<or>
          (0 \<le> index \<and> index \<le> int (length (sortedAnnotations s)) - 1)"
    by (auto simp: goToStep_def step_valid_def)
qed

lemma step_valid_page_ABC: "step_valid page_ABC"
  by (simp add: step_valid_def sorted_ABC) (simp add: page_ABC_def initial_page_def)

theorem step_valid_preserved_witness:
  "step_valid page_ABC \<and>
   currentStep (fst (handleKeyDown ''ArrowRight'' page_ABC)) = 1 \<and>
   step_valid (fst (handleKeyDown ''ArrowRight'' page_ABC)) \<and>
   currentStep (previousClick page_ABC) = 0 \<and>
   step_valid (previousClick page_ABC) \<and>
   step_valid (nextClick page_ABC) \<and>
   step_valid (fst (markComplete page_ABC)) \<and>
   step_valid (onAnnotationClick (step_at_origin ''C'' 3) page_ABC) \<and>
   step_valid (goToStep 2 page_ABC) \<and>
   \<not> step_valid (goToStep 3 page_ABC)"
  using step_valid_preserved [OF step_valid_page_ABC, of "''ArrowRight''" "step_at_origin ''C'' 3" 2]
    step_valid_preserved [OF step_valid_page_ABC, of "''ArrowRight''" "step_at_origin ''C'' 3" 3]
  by (simp add: step_valid_page_ABC sorted_ABC)
    (simp add: handleKeyDown_def previousClick_def sorted_ABC, simp add: page_ABC_def initial_page_def)

theorem goToStep_counterexample:
  "sortedAnnotations page_ABC \<noteq> [] \<and>
   int (length (sortedAnnotations page_ABC)) - 1 = 2 \<and>
   currentStep (goToStep 5 page_ABC) = 5 \<and>
   currentStep (goToStep (- 1) page_ABC) = - 1 \<and>
   \<not> step_valid (goToStep 5 page_ABC)"
  by (simp add: goToStep_def step_valid_def sorted_ABC)


text \<open>
  C7 (amended). When the completed set holds only ids of the tutorial's annotations, it
  still does after \<open>markComplete\<close> (which adds the id of the current annotation, one of
  the tutorial's), after every key, button and marker handler, after a camera update,
  after the timers, and after a progress reply without a list of ids. A reply with a
  list replaces the completed set by that list as it is: the invariant holds afterwards
  exactly when every id of the list is an id of the tutorial's annotations (or the reply
  is ignored: no session, no tutorial, or progress loaded already).
\<close>

theorem completed_known_preserved:
  assumes "completed_known s"
  shows "completed_known (fst (markComplete s)) \<and>
         completed_known (fst (handleKeyDown key s)) \<and>
         completed_known (previousClick s) \<and>
         completed_known (nextClick s) \<and>
         completed_known (goToStep index s) \<and>
         completed_known (onAnnotationClick ann s) \<and>
         completed_known (onCameraMove pos s) \<and>
         completed_known (startTutorial s) \<and>
         completed_known (clearWarning s) \<and>
         completed_known (fst (saveProgress_settled fetched isComplete s)) \<and>
         completed_known (loadProgress FetchThrew s) \<and>
         completed_known (loadProgress NotOk s) \<and>
         completed_known (loadProgress (Ok None) s) \<and>
         (completed_known (loadProgress (Ok (Some ids)) s) \<longleftrightarrow>
            \<not> session s \<or> tutorial s = None \<or> progressLoaded s \<or> set ids \<subseteq> annotation_ids s)"
proof (intro conjI)
  show "completed_known (fst (markComplete s))"
    using assms by (rule completed_known_markComplete)
  show "completed_known (fst (handleKeyDown key s))"
    using assms by (rule completed_known_handleKeyDown)
  show "completed_known (previousClick s)"
    using assms by (simp add: previousClick_def completed_known_def annotation_ids_def)
  show "completed_known (nextClick s)"
    using assms by (simp add: nextClick_def completed_known_def annotation_ids_def)
  show "completed_known (goToStep index s)"
    using assms by (simp add: goToStep_def completed_known_def annotation_ids_def)
  show "completed_known (onAnnotationClick ann s)"
    using assms by (simp add: onAnnotationClick_def Let_def completed_known_def annotation_ids_def)
  show "completed_known (onCameraMove pos s)"
    using assms by (simp add: onCameraMove_def completed_known_def annotation_ids_def)
  show "completed_known (startTutorial s)"
    using assms by (simp add: startTutorial_def completed_known_def annotation_ids_def)
  show "completed_known (clearWarning s)"
    using assms by (simp add: clearWarning_def completed_known_def annotation_ids_def)
  show "completed_known (fst (saveProgress_settled fetched isComplete s))"
    using assms by (simp add: saveProgress_settled_def completed_known_def annotation_ids_def)
  show "completed_known (loadProgress FetchThrew s)"
    using assms by (simp add: loadProgress_def completed_known_def annotation_ids_def)
  show "completed_known (loadProgress NotOk s)"
    using assms by (simp add: loadProgress_def completed_known_def annotation_ids_def)
  show "completed_known (loadProgress (Ok None) s)"
    using assms by (simp add: loadProgress_def completed_known_def annotation_ids_def)
  show "completed_known (loadProgress (Ok (Some ids)) s) \<longleftrightarrow>
          \<not> session s \<or> tutorial s = None \<or> progressLoaded s \<or> set ids \<subseteq> annotation_ids s"
    using assms by (auto simp: loadProgress_def completed_known_def annotation_ids_def)
qed

theorem completed_known_preserved_witness:
  "completed_known page_ABC \<and>
   completedSteps (fst (markComplete page_ABC)) = {''A''} \<and>
   completed_known (fst (markComplete page_ABC)) \<and>
   completedSteps (loadProgress (Ok (Some [''A'', ''B''])) page_ABC) = {''A'', ''B''} \<and>
   completed_known (loadProgress (Ok (Some [''A'', ''B''])) page_ABC)"
proof -
  have mark: "completedSteps (fst (markComplete page_ABC)) = {''A''}"
    using near_examples(1)
    by (simp add: markComplete_def saveProgress_def currentAnnotation_def nextRequiredStep_def
        findIndex_def example_defs Let_def)
  have load: "completedSteps (loadProgress (Ok (Some [''A'', ''B''])) page_ABC) = {''A'', ''B''}"
    by (simp add: loadProgress_def page_ABC_def initial_page_def)
  show ?thesis
    using completed_known_preserved [OF completed_known_page_ABC, of _ _ _ _ _ _ "[''A'', ''B'']"]
    by (simp add: completed_known_page_ABC mark load annotation_ids_ABC)
qed

theorem loadProgress_counterexample:
  "completed_known page_ABC \<and>
   annotation_ids page_ABC = {''A'', ''B'', ''C''} \<and>
   completedSteps (loadProgress (Ok (Some [''Z''])) page_ABC) = {''Z''} \<and>
   \<not> completed_known (loadProgress (Ok (Some [''Z''])) page_ABC)"
proof -
  have load: "loadProgress (Ok (Some [''Z''])) page_ABC =
      page_ABC\<lparr>completedSteps := {''Z''}, progressLoaded := True\<rparr>"
    by (simp add: loadProgress_def page_ABC_def initial_page_def)
  have ids: "annotation_ids (page_ABC\<lparr>completedSteps := {''Z''}, progressLoaded := True\<rparr>) =
      {''A'', ''B'', ''C''}"
    using annotation_ids_ABC by (simp add: annotation_ids_def)
  show ?thesis
    by (simp add: completed_known_page_ABC annotation_ids_ABC load)
      (simp add: completed_known_def ids)
qed


section \<open>The overlay\<close>

text \<open>
  C1. For an annotation, a projection and a viewport, let \<open>pos\<close> be the projected point,
  \<open>sx = (pos.x * 0.5 + 0.5) * width\<close> and \<open>sy = (-pos.y * 0.5 + 0.5) * height\<close>, computed in
  doubles. These are the pixel coordinates the code computes. The point is behind
  exactly when its depth exceeds 1; off bounds exactly when it is not behind and
  \<open>sx < -20\<close>, \<open>sx > width + 20\<close>, \<open>sy < -20\<close> or \<open>sy > height + 20\<close>; on screen exactly when
  none of the five comparisons holds, which includes a coordinate that is not a number.
  The loop body appends a marker, positioned at \<open>(sx, sy)\<close>, exactly when the point is on
  screen.
\<close>

theorem projector_classification:
  "(let pos = project \<lparr>vx = ann_x ann, vy = ann_y ann, vz = ann_z ann\<rparr>;
        sx = fmul (fadd (fmul (vx pos) (Num (1 / 2))) (Num (1 / 2))) width;
        sy = fmul (fadd (fmul (fneg (vy pos)) (Num (1 / 2))) (Num (1 / 2))) height;
        behind = fgt (vz pos) (Num 1);
        outside = (flt sx (Num (- 20)) \<or> fgt sx (fadd width (Num 20)) \<or>
                   flt sy (Num (- 20)) \<or> fgt sy (fadd height (Num 20)))
    in screenX pos width = sx \<and>
       screenY pos height = sy \<and>
       (visibility pos width height = Behind \<longleftrightarrow> behind) \<and>
       (visibility pos width height = OffBounds \<longleftrightarrow> \<not> behind \<and> outside) \<and>
       (visibility pos width height = OnScreen \<longleftrightarrow> \<not> behind \<and> \<not> outside) \<and>
       (visibility pos width height = OnScreen \<longleftrightarrow>
          (\<exists>el. place project active width height ann index = Inr el \<and>
                hd (el_classes el) = ''annotation-marker'' \<and>
                el_left el = sx \<and> el_top el = sy)))"
proof -
  define pos where "pos = project \<lparr>vx = ann_x ann, vy = ann_y ann, vz = ann_z ann\<rparr>"
  have behind: "visibility pos width height = Behind \<longleftrightarrow> fgt (vz pos) (Num 1)"
    by (simp add: visibility_def isOffScreen_def isBehind_def)
  have off: "visibility pos width height = OffBounds \<longleftrightarrow>
      \<not> fgt (vz pos) (Num 1) \<and>
      (flt (screenX pos width) (Num (- 20)) \<or> fgt (screenX pos width) (fadd width (Num 20)) \<or>
       flt (screenY pos height) (Num (- 20)) \<or> fgt (screenY pos height) (fadd height (Num 20)))"
    by (auto simp: visibility_def isOffScreen_def isBehind_def margin_def fneg_def)
  have on: "visibility pos width height = OnScreen \<longleftrightarrow>
      \<not> fgt (vz pos) (Num 1) \<and>
      \<not> (flt (screenX pos width) (Num (- 20)) \<or> fgt (screenX pos width) (fadd width (Num 20)) \<or>
         flt (screenY pos height) (Num (- 20)) \<or> fgt (screenY pos height) (fadd height (Num 20)))"
    by (auto simp: visibility_def isOffScreen_def isBehind_def margin_def fneg_def)
  have marked: "visibility pos width height = OnScreen \<longleftrightarrow>
      (\<exists>el. place project active width height ann index = Inr el \<and>
            hd (el_classes el) = ''annotation-marker'' \<and>
            el_left el = screenX pos width \<and> el_top el = screenY pos height)"
  proof (cases "isOffScreen pos width height")
    case False
    then have "place project active width height ann index =
        Inr (marker ann index active pos width height)"
      by (simp add: place_def pos_def Let_def)
    with False show ?thesis
      by (simp add: visibility_def marker_def)
  next
    case True
    then have ind: "place project active width height ann index =
        indicator ann index active pos width height"
      by (simp add: place_def pos_def Let_def)
    have "hd (el_classes el) \<noteq> ''annotation-marker''"
      if "place project active width height ann index = Inr el" for el
      using indicator_head [of ann index active pos width height el] that ind by simp
    with True show ?thesis
      by (auto simp: visibility_def)
  qed
  from behind off on marked show ?thesis
    unfolding Let_def pos_def [symmetric]
    by (simp add: screenX_def screenY_def)
qed

theorem projector_classification_witness:
  "visibility in_front (Num 800) (Num 600) = OnScreen \<and>
   (\<exists>el. place (\<lambda>_. in_front) None (Num 800) (Num 600) (step_at_origin ''A'' 1) 0 = Inr el \<and>
         hd (el_classes el) = ''annotation-marker'' \<and>
         el_left el = Num 600 \<and> el_top el = Num 150) \<and>
   visibility behind_centre (Num 800) (Num 600) = Behind \<and>
   visibility top_left_corner (Num 800) (Num 600) = OffBounds \<and>
   screenX near_right_edge (Num 800) = Num (7212796278210559 / 8796093022208) \<and>
   visibility near_right_edge (Num 800) (Num 600) = OnScreen \<and>
   visibility at_camera (Num 800) (Num 600) = OnScreen \<and>
   (\<exists>el. place (\<lambda>_. at_camera) None (Num 800) (Num 600) (step_at_origin ''A'' 1) 0 = Inr el \<and>
         el_left el = NaN \<and> el_top el = NaN)"
proof -
  note at = projector_classification
    [of _ "step_at_origin ''A'' 1" "Num 800" "Num 600" None 0, unfolded Let_def]
  have front:
    "fmul (fadd (fmul (vx in_front) (Num (1 / 2))) (Num (1 / 2))) (Num 800) = Num 600"
    "fmul (fadd (fmul (fneg (vy in_front)) (Num (1 / 2))) (Num (1 / 2))) (Num 600) = Num 150"
    "\<not> fgt (vz in_front) (Num 1)"
    by (simp_all add: in_front_def number_eval)
  have centre: "fgt (vz behind_centre) (Num 1)"
    by (simp add: behind_centre_def number_eval)
  have corner:
    "fmul (fadd (fmul (vx top_left_corner) (Num (1 / 2))) (Num (1 / 2))) (Num 800) =
       Num (- 5629499534213119 / 70368744177664)"
    "\<not> fgt (vz top_left_corner) (Num 1)"
    by (simp_all add: top_left_corner_def number_eval)
  have edge:
    "fmul (fadd (fmul (vx near_right_edge) (Num (1 / 2))) (Num (1 / 2))) (Num 800) =
       Num (7212796278210559 / 8796093022208)"
    "fmul (fadd (fmul (fneg (vy near_right_edge)) (Num (1 / 2))) (Num (1 / 2))) (Num 600) =
       Num 300"
    "\<not> fgt (vz near_right_edge) (Num 1)"
    by (simp_all add: near_right_edge_def number_eval)
  have camera:
    "fmul (fadd (fmul (vx at_camera) (Num (1 / 2))) (Num (1 / 2))) (Num 800) = NaN"
    "fmul (fadd (fmul (fneg (vy at_camera)) (Num (1 / 2))) (Num (1 / 2))) (Num 600) = NaN"
    "\<not> fgt (vz at_camera) (Num 1)"
    by (simp_all add: at_camera_def number_eval)
  have cmp:
    "\<not> flt (Num 600) (Num (- 20))" "\<not> fgt (Num 600) (Num 820)"
    "\<not> flt (Num 150) (Num (- 20))" "\<not> fgt (Num 150) (Num 620)"
    "flt (Num (- 5629499534213119 / 70368744177664)) (Num (- 20))"
    "\<not> flt (Num (7212796278210559 / 8796093022208)) (Num (- 20))"
    "\<not> fgt (Num (7212796278210559 / 8796093022208)) (Num 820)"
    "\<not> flt (Num 300) (Num (- 20))" "\<not> fgt (Num 300) (Num 620)"
    by (simp_all add: flt_def fgt_def)
  from at [of "\<lambda>_. in_front"] front cmp
  have c1: "visibility in_front (Num 800) (Num 600) = OnScreen"
    by (simp add: canvas_800_600)
  from at [of "\<lambda>_. in_front"] c1 front
  have c2: "\<exists>el. place (\<lambda>_. in_front) None (Num 800) (Num 600) (step_at_origin ''A'' 1) 0 = Inr el \<and>
      hd (el_classes el) = ''annotation-marker'' \<and> el_left el = Num 600 \<and> el_top el = Num 150"
    by simp
  from at [of "\<lambda>_. behind_centre"] centre
  have c3: "visibility behind_centre (Num 800) (Num 600) = Behind"
    by simp
  from at [of "\<lambda>_. top_left_corner"] corner cmp
  have c4: "visibility top_left_corner (Num 800) (Num 600) = OffBounds"
    by (simp add: canvas_800_600)
  from at [of "\<lambda>_. near_right_edge"] edge
  have c5: "screenX near_right_edge (Num 800) = Num (7212796278210559 / 8796093022208)"
    by simp
  from at [of "\<lambda>_. near_right_edge"] edge cmp
  have c6: "visibility near_right_edge (Num 800) (Num 600) = OnScreen"
    by (simp add: canvas_800_600)
  from at [of "\<lambda>_. at_camera"] camera
  have c7: "visibility at_camera (Num 800) (Num 600) = OnScreen"
    by (simp add: compare_not_a_number)
  from at [of "\<lambda>_. at_camera"] c7 camera
  have c8: "\<exists>el. place (\<lambda>_. at_camera) None (Num 800) (Num 600) (step_at_origin ''A'' 1) 0 = Inr el \<and>
      el_left el = NaN \<and> el_top el = NaN"
    by auto
  from c1 c2 c3 c4 c5 c6 c7 c8 show ?thesis
    by simp
qed

text \<open>
  C2. A point straight behind the camera is off screen, its mirrored position (400, 300)
  on an 800 by 600 canvas is further than the padding from every edge, and so the
  direction stays empty. \<open>classList.add\<close> then throws on the empty token: the
  indicator is not appended, and the loop ends before the annotations after it.
\<close>

theorem interior_indicator_throws:
  "isBehind behind_centre \<and> isOffScreen behind_centre (Num 800) (Num 600) \<and>
   indicator_style behind_centre (Num 800) (Num 600) = ([], Num 400, Num 300) \<and>
   place (\<lambda>_. behind_centre) None (Num 800) (Num 600) (step_at_origin ''A'' 1) 0 =
     Inl SyntaxError \<and>
   updateAnnotationPositions (Some (fixed_view behind_centre (Num 800) (Num 600)))
     [step_at_origin ''A'' 1, step_at_origin ''B'' 2] None [] = ([], Some SyntaxError)"
  by (simp add: updateAnnotationPositions_def fixed_view_def overlay_defs behind_centre_def
      step_at_origin_def number_eval)


section \<open>The annotation routes\<close>

text \<open>
  C8. An update that provides every field and an explicit null for the image: the
  \<open>PUT\<close> of lines 284-333 leaves the image \<open>pic.png\<close> in place, whatever the query builder
  does with \<open>undefined\<close>, where the \<open>PUT\<close> of lines 96-148 clears it.
\<close>

theorem PUT_B_keeps_image:
  "PUT_B policy True 9 ''t1'' (Some clear_image_body) [row_a1, row_a2] =
     Inr (Some (row_a1\<lparr>row_updatedAt := 9\<rparr>), [row_a1\<lparr>row_updatedAt := 9\<rparr>, row_a2]) \<and>
   row_imageUrl (row_a1\<lparr>row_updatedAt := 9\<rparr>) = Some ''pic.png'' \<and>
   PUT_A policy True 9 ''t1'' (Some clear_image_body) [row_a1, row_a2] =
     Inr (Some (row_a1\<lparr>row_imageUrl := None, row_updatedAt := 9\<rparr>),
          [row_a1\<lparr>row_imageUrl := None, row_updatedAt := 9\<rparr>, row_a2])"
  by (simp add: PUT_A_def PUT_B_def route_defs clear_image_body_def row_a1_def row_a2_def
      Let_def)

text \<open>
  C9 (amended). A create request that passes the checks (a session, a title, the three
  coordinates) stores a new row at the end of the table. The \<open>POST\<close> of lines 8-64 gives
  it the order \<open>count + 1\<close>, where \<open>count\<close> is the number of annotations the tutorial has,
  exactly when the order is omitted or null, and any given order otherwise, 1 included.
  The \<open>POST\<close> of lines 197-252 also takes the orders 0 and 1 as not given (line 222:
  ``if not provided or if it's 1 (default)'') and gives \<open>count + 1\<close> for them; it stores
  every other given order.
\<close>

theorem POST_order_assignment:
  assumes "truthy_string (b_title b)"
    and "b_x b \<noteq> Undefined" and "b_y b \<noteq> Undefined" and "b_z b \<noteq> Undefined"
  shows "(\<exists>new. POST_A True fresh tutorialId (Some b) db = Inr (new, db @ [new]) \<and>
            row_order new =
              (case b_order b of
                 Undefined \<Rightarrow> Some (int (length (filter (\<lambda>a. row_tutorialId a = tutorialId) db)) + 1)
               | Null \<Rightarrow> Some (int (length (filter (\<lambda>a. row_tutorialId a = tutorialId) db)) + 1)
               | Val n \<Rightarrow> Some n)) \<and>
         (\<exists>new. POST_B True fresh tutorialId (Some b) db = Inr (new, db @ [new]) \<and>
            row_order new =
              (case b_order b of
                 Undefined \<Rightarrow> Some (int (length (filter (\<lambda>a. row_tutorialId a = tutorialId) db)) + 1)
               | Null \<Rightarrow> Some (int (length (filter (\<lambda>a. row_tutorialId a = tutorialId) db)) + 1)
               | Val n \<Rightarrow>
                   if n = 0 \<or> n = 1
                   then Some (int (length (filter (\<lambda>a. row_tutorialId a = tutorialId) db)) + 1)
                   else Some n))"
proof
  show "\<exists>new. POST_A True fresh tutorialId (Some b) db = Inr (new, db @ [new]) \<and>
      row_order new =
        (case b_order b of
           Undefined \<Rightarrow> Some (int (length (filter (\<lambda>a. row_tutorialId a = tutorialId) db)) + 1)
         | Null \<Rightarrow> Some (int (length (filter (\<lambda>a. row_tutorialId a = tutorialId) db)) + 1)
         | Val n \<Rightarrow> Some n)"
    using assms
    by (cases "b_order b")
      (simp_all add: POST_A_def Let_def column_value_def existingAnnotations_def)
  show "\<exists>new. POST_B True fresh tutorialId (Some b) db = Inr (new, db @ [new]) \<and>
      row_order new =
        (case b_order b of
           Undefined \<Rightarrow> Some (int (length (filter (\<lambda>a. row_tutorialId a = tutorialId) db)) + 1)
         | Null \<Rightarrow> Some (int (length (filter (\<lambda>a. row_tutorialId a = tutorialId) db)) + 1)
         | Val n \<Rightarrow>
             if n = 0 \<or> n = 1
             then Some (int (length (filter (\<lambda>a. row_tutorialId a = tutorialId) db)) + 1)
             else Some n)"
    using assms
    by (cases "b_order b")
      (simp_all add: POST_B_def Let_def column_value_def existingAnnotations_def
        truthy_number_def)
qed

lemma pump_body_passes:
  "truthy_string (b_title (pump_body ord))" "b_x (pump_body ord) \<noteq> Undefined"
  "b_y (pump_body ord) \<noteq> Undefined" "b_z (pump_body ord) \<noteq> Undefined"
  "b_order (pump_body ord) = ord"
  by (simp_all add: pump_body_def empty_body_def truthy_string_def)

theorem POST_order_assignment_witness:
  "(\<exists>new. POST_A True fresh_row ''t1'' (Some (pump_body (Val 1))) [row_a1, row_a2] =
            Inr (new, [row_a1, row_a2, new]) \<and> row_order new = Some 1) \<and>
   (\<exists>new. POST_B True fresh_row ''t1'' (Some (pump_body (Val 1))) [row_a1, row_a2] =
            Inr (new, [row_a1, row_a2, new]) \<and> row_order new = Some 3) \<and>
   (\<exists>new. POST_A True fresh_row ''t1'' (Some (pump_body Undefined)) [row_a1, row_a2] =
            Inr (new, [row_a1, row_a2, new]) \<and> row_order new = Some 3) \<and>
   (\<exists>new. POST_B True fresh_row ''t1'' (Some (pump_body (Val 7))) [row_a1, row_a2] =
            Inr (new, [row_a1, row_a2, new]) \<and> row_order new = Some 7)"
  using
    POST_order_assignment
      [of "pump_body (Val 1)" fresh_row "''t1''" "[row_a1, row_a2]", OF pump_body_passes(1-4)]
    POST_order_assignment
      [of "pump_body Undefined" fresh_row "''t1''" "[row_a1, row_a2]", OF pump_body_passes(1-4)]
    POST_order_assignment
      [of "pump_body (Val 7)" fresh_row "''t1''" "[row_a1, row_a2]", OF pump_body_passes(1-4)]
  by (simp add: pump_body_passes(5) row_a1_def row_a2_def)

text \<open>
  That omitted or null is the only signal, and an explicit 1 is stored as given, does not
  hold of the \<open>POST\<close> of lines 197-252: asked for order 1 on a tutorial with two
  annotations it stores order 3, where the \<open>POST\<close> of lines 8-64 stores 1.
\<close>

theorem POST_B_replaces_order_one:
  "POST_B True fresh_row ''t1'' (Some (pump_body (Val 1))) [row_a1, row_a2] =
     Inr (pump_row 3, [row_a1, row_a2, pump_row 3]) \<and>
   POST_A True fresh_row ''t1'' (Some (pump_body (Val 1))) [row_a1, row_a2] =
     Inr (pump_row 1, [row_a1, row_a2, pump_row 1])"
  by (simp add: POST_A_def POST_B_def route_defs pump_body_def pump_row_def empty_body_def
      row_a1_def row_a2_def fresh_row_def Let_def)

end
